theory Spec2Isabelle
  imports Complex_Main
begin

section \<open>Numbers, errors and dictionaries\<close>

text \<open>
  The tracker computes with Python floats. They are embedded as exact rationals
  (\<^typ>\<open>rat\<close>): every arithmetic step of the source is kept, in the source's order, but
  it is carried out without binary rounding error. \<open>round_float\<close> of the source goes
  through \<open>Decimal(str(value))\<close>, i.e. through the decimal numeral printed for the float,
  and quantizes it with \<open>ROUND_HALF_UP\<close>, which in Python's decimal module rounds a tie
  away from zero.

  Exceptions of the source are values of \<open>error\<close>; a function that can raise returns
  \<open>error + 'a\<close> with \<open>Inl\<close> for the exception.
\<close>

datatype error = KeyError | ZeroDivisionError | ValueError | TypeError

text \<open>
  A Python \<open>dict\<close> keeps its keys in insertion order and the loops of the source iterate
  in that order, so a dictionary is an association list: assigning to a present key
  replaces the value in place, assigning to an absent key appends the entry.
\<close>

type_synonym ('k, 'v) dict = "('k \<times> 'v) list"

definition dict_get :: "('k, 'v) dict \<Rightarrow> 'k \<Rightarrow> 'v \<Rightarrow> 'v" where
  "dict_get d k dflt = (case map_of d k of None \<Rightarrow> dflt | Some v \<Rightarrow> v)"

definition dict_index :: "('k, 'v) dict \<Rightarrow> 'k \<Rightarrow> error + 'v" where
  "dict_index d k = (case map_of d k of None \<Rightarrow> Inl KeyError | Some v \<Rightarrow> Inr v)"

fun dict_set :: "('k, 'v) dict \<Rightarrow> 'k \<Rightarrow> 'v \<Rightarrow> ('k, 'v) dict" where
  "dict_set [] k v = [(k, v)]"
| "dict_set ((k', v') # d) k v =
     (if k' = k then (k, v) # d else (k', v') # dict_set d k v)"

definition dict_keys :: "('k, 'v) dict \<Rightarrow> 'k list" where
  "dict_keys d = map fst d"

definition dict_values :: "('k, 'v) dict \<Rightarrow> 'v list" where
  "dict_values d = map snd d"

definition dict_contains :: "('k, 'v) dict \<Rightarrow> 'k \<Rightarrow> bool" where
  "dict_contains d k = (k \<in> set (dict_keys d))"

text \<open>
  \<open>ProductionGraph.round_float(value, decimal_places)\<close>: quantize to
  \<open>decimal_places\<close> digits after the point, ties away from zero. The source calls it
  with 2 and with 4 only.
\<close>

definition round_float :: "rat \<Rightarrow> nat \<Rightarrow> rat" where
  "round_float v decimal_places =
     (let q = (10::rat) ^ decimal_places
      in sgn v * of_int \<lfloor>\<bar>v\<bar> * q + 1 / 2\<rfloor> / q)"

section \<open>models.py\<close>

subsection \<open>ResourceNode\<close>

record resource_node =
  node_id :: int
  resource_type :: string
  purity :: string
  miner_type :: string
  miner_rate :: rat
  node_clock_speed :: rat
  output_rate :: rat

definition purity_multiplier :: "(string, rat) dict" where
  "purity_multiplier = [(''Impure'', 1 / 2), (''Normal'', 1), (''Pure'', 2)]"

text \<open>
  \<open>calculate_output_rate\<close> indexes the multiplier table with the stored purity string;
  any other string raises \<open>KeyError\<close>.
\<close>

definition calculate_output_rate :: "resource_node \<Rightarrow> error + rat" where
  "calculate_output_rate n =
     (case dict_index purity_multiplier (purity n) of
        Inl e \<Rightarrow> Inl e
      | Inr m \<Rightarrow> Inr (m * miner_rate n * (node_clock_speed n / 100)))"

text \<open>The constructor: clock speed 100, then the cached output rate.\<close>

definition ResourceNode_init ::
  "int \<Rightarrow> string \<Rightarrow> string \<Rightarrow> string \<Rightarrow> rat \<Rightarrow> error + resource_node" where
  "ResourceNode_init nid rtype pur mtype mrate =
     (let n = \<lparr>node_id = nid, resource_type = rtype, purity = pur, miner_type = mtype,
                miner_rate = mrate, node_clock_speed = 100, output_rate = 0\<rparr>
      in case calculate_output_rate n of
           Inl e \<Rightarrow> Inl e
         | Inr r \<Rightarrow> Inr (n\<lparr>output_rate := r\<rparr>))"

definition ResourceNode_set_clock_speed :: "resource_node \<Rightarrow> rat \<Rightarrow> error + resource_node" where
  "ResourceNode_set_clock_speed n clock =
     (let n' = n\<lparr>node_clock_speed := max (1 / 1000) (min 250 clock)\<rparr>
      in case calculate_output_rate n' of
           Inl e \<Rightarrow> Inl e
         | Inr r \<Rightarrow> Inr (n'\<lparr>output_rate := r\<rparr>))"

text \<open>
  A node the program can hold: built by the constructor, then any number of
  \<open>set_clock_speed\<close> calls (no other code of the repository writes a node's fields).
\<close>

fun node_after :: "resource_node \<Rightarrow> rat list \<Rightarrow> error + resource_node" where
  "node_after n [] = Inr n"
| "node_after n (c # cs) =
     (case ResourceNode_set_clock_speed n c of
        Inl e \<Rightarrow> Inl e
      | Inr n' \<Rightarrow> node_after n' cs)"

subsection \<open>Recipe and Facility\<close>

record recipe_t =
  recipe_name :: string
  building_type :: string
  inputs :: "(string \<times> rat) list"
  outputs :: "(string \<times> rat) list"

record facility =
  facility_id :: int
  facility_type :: string
  recipe :: string
  input_items :: "(string \<times> rat) list"
  output_items :: "(string \<times> rat) list"
  clock_speed :: rat
  is_active :: bool

definition Facility_init :: "int \<Rightarrow> string \<Rightarrow> string \<Rightarrow> facility" where
  "Facility_init fid ftype rcp =
     \<lparr>facility_id = fid, facility_type = ftype, recipe = rcp, input_items = [],
      output_items = [], clock_speed = 100, is_active = True\<rparr>"

definition set_input_item :: "facility \<Rightarrow> string \<Rightarrow> rat \<Rightarrow> facility" where
  "set_input_item f item rate = f\<lparr>input_items := input_items f @ [(item, rate)]\<rparr>"

definition set_output_item :: "facility \<Rightarrow> string \<Rightarrow> rat \<Rightarrow> facility" where
  "set_output_item f item rate = f\<lparr>output_items := output_items f @ [(item, rate)]\<rparr>"

definition Facility_set_clock_speed :: "facility \<Rightarrow> rat \<Rightarrow> facility" where
  "Facility_set_clock_speed f clock = f\<lparr>clock_speed := max (1 / 1000) (min 250 clock)\<rparr>"

definition toggle_active_state :: "facility \<Rightarrow> facility" where
  "toggle_active_state f = f\<lparr>is_active := \<not> is_active f\<rparr>"

definition update_recipe :: "facility \<Rightarrow> recipe_t \<Rightarrow> facility" where
  "update_recipe f r =
     f\<lparr>recipe := recipe_name r, input_items := inputs r, output_items := outputs r,
       clock_speed := 100\<rparr>"

definition get_adjusted_rates ::
  "facility \<Rightarrow> (string \<times> rat) list \<times> (string \<times> rat) list" where
  "get_adjusted_rates f =
     (if \<not> is_active f then ([], [])
      else
        let adjustment_factor = clock_speed f / 100;
            adjusted_inputs = map (\<lambda>(item, rate). (item, rate * adjustment_factor)) (input_items f);
            adjusted_outputs = map (\<lambda>(item, rate). (item, rate * adjustment_factor)) (output_items f)
        in (adjusted_inputs, adjusted_outputs))"

text \<open>The methods of \<open>Facility\<close> that write its fields, as a datatype of calls.\<close>

datatype facility_call =
    SetInputItem string rat
  | SetOutputItem string rat
  | SetClockSpeed rat
  | ToggleActiveState
  | UpdateRecipe recipe_t

fun facility_do :: "facility_call \<Rightarrow> facility \<Rightarrow> facility" where
  "facility_do (SetInputItem item rate) f = set_input_item f item rate"
| "facility_do (SetOutputItem item rate) f = set_output_item f item rate"
| "facility_do (SetClockSpeed c) f = Facility_set_clock_speed f c"
| "facility_do ToggleActiveState f = toggle_active_state f"
| "facility_do (UpdateRecipe r) f = update_recipe f r"

definition facility_after :: "facility \<Rightarrow> facility_call list \<Rightarrow> facility" where
  "facility_after f calls = fold facility_do calls f"

subsection \<open>Base\<close>

record base =
  base_id :: int
  name :: string
  nodes :: "(int, resource_node) dict"
  facilities :: "(int, facility) dict"
  storage :: "(string, rat) dict"

definition Base_init :: "int \<Rightarrow> string \<Rightarrow> base" where
  "Base_init bid nm = \<lparr>base_id = bid, name = nm, nodes = [], facilities = [], storage = []\<rparr>"

definition add_node :: "base \<Rightarrow> resource_node \<Rightarrow> base" where
  "add_node b n = b\<lparr>nodes := dict_set (nodes b) (node_id n) n\<rparr>"

definition add_facility :: "base \<Rightarrow> facility \<Rightarrow> base" where
  "add_facility b f = b\<lparr>facilities := dict_set (facilities b) (facility_id f) f\<rparr>"

section \<open>production_graph.py\<close>

record production_graph =
  bases :: "(int, base) dict"
  unlinked_nodes :: "(int, resource_node) dict"

definition ProductionGraph_init :: production_graph where
  "ProductionGraph_init = \<lparr>bases = [], unlinked_nodes = []\<rparr>"

definition add_base :: "production_graph \<Rightarrow> base \<Rightarrow> production_graph" where
  "add_base g b = g\<lparr>bases := dict_set (bases g) (base_id b) b\<rparr>"

definition add_unlinked_node :: "production_graph \<Rightarrow> resource_node \<Rightarrow> production_graph" where
  "add_unlinked_node g n = g\<lparr>unlinked_nodes := dict_set (unlinked_nodes g) (node_id n) n\<rparr>"

type_synonym rates = "(string, rat) dict"
type_synonym factors = "(string, string list) dict"

subsection \<open>The aggregation passes\<close>

text \<open>
  The statement \<open>d[item] = self.round_float(d.get(item, 0) + rate, 2)\<close>, which every
  aggregation loop of the source executes.
\<close>

definition add_rate :: "rates \<Rightarrow> string \<Rightarrow> rat \<Rightarrow> rates" where
  "add_rate d item rate = dict_set d item (round_float (dict_get d item 0 + rate) 2)"

text \<open>\<open>for node in ns.values(): d[node.resource_type] = ...\<close>\<close>

definition add_nodes :: "resource_node list \<Rightarrow> rates \<Rightarrow> rates" where
  "add_nodes ns d = fold (\<lambda>node d. add_rate d (resource_type node) (output_rate node)) ns d"

text \<open>\<open>for item, rate in adjusted: d[item] = ...\<close>\<close>

definition add_items :: "(string \<times> rat) list \<Rightarrow> rates \<Rightarrow> rates" where
  "add_items adjusted d = fold (\<lambda>(item, rate) d. add_rate d item rate) adjusted d"

text \<open>
  The body of the loop over facilities: consumption from the adjusted inputs, production
  from the adjusted outputs. The state is the pair (production, consumption).
\<close>

definition add_facility_rates :: "facility \<Rightarrow> rates \<times> rates \<Rightarrow> rates \<times> rates" where
  "add_facility_rates f = (\<lambda>(production, consumption).
     let (adjusted_inputs, adjusted_outputs) = get_adjusted_rates f;
         consumption' = add_items adjusted_inputs consumption;
         production' = add_items adjusted_outputs production
     in (production', consumption'))"

text \<open>Lines 51--58 of \<open>calculate_production_rates\<close>: nodes of every base, then the unlinked nodes.\<close>

definition raw_production :: "production_graph \<Rightarrow> rates" where
  "raw_production g =
     add_nodes (dict_values (unlinked_nodes g))
       (fold (\<lambda>b d. add_nodes (dict_values (nodes b)) d) (dict_values (bases g)) [])"

text \<open>Lines 60--72: the facilities of every base, starting from the raw production.\<close>

definition aggregate :: "production_graph \<Rightarrow> rates \<times> rates" where
  "aggregate g =
     fold (\<lambda>b s. fold add_facility_rates (dict_values (facilities b)) s)
       (dict_values (bases g)) (raw_production g, [])"

subsection \<open>The shortage pass\<close>

text \<open>
  The nested loops \<open>for base in self.bases.values(): for facility in base.facilities.values()\<close>
  visit the facilities in this order.
\<close>

definition all_facilities :: "production_graph \<Rightarrow> facility list" where
  "all_facilities g = concat (map (\<lambda>b. dict_values (facilities b)) (dict_values (bases g)))"

text \<open>
  Lines 85--89, the loop over the adjusted outputs of one facility that lists the short
  item. \<open>total_production[output_item]\<close> is an index, not a \<open>get\<close>.
\<close>

fun adjust_outputs ::
  "string \<Rightarrow> rat \<Rightarrow> (string \<times> rat) list \<Rightarrow> rates \<times> factors \<Rightarrow> error + rates \<times> factors" where
  "adjust_outputs item production_ratio [] s = Inr s"
| "adjust_outputs item production_ratio ((output_item, out_rate) # rest) (total_production, limiting_factors) =
     (case dict_index total_production output_item of
        Inl e \<Rightarrow> Inl e
      | Inr cur \<Rightarrow>
          let total_production' = dict_set total_production output_item
                (round_float (cur - out_rate * (1 - production_ratio)) 2);
              limiting_factors' =
                (if \<not> dict_contains limiting_factors output_item
                 then dict_set limiting_factors output_item [] else limiting_factors);
              limiting_factors'' = dict_set limiting_factors' output_item
                (dict_get limiting_factors' output_item [] @ [item])
          in adjust_outputs item production_ratio rest (total_production', limiting_factors''))"

text \<open>Lines 81--84, the loop over all facilities for one short item.\<close>

fun adjust_facilities ::
  "string \<Rightarrow> rat \<Rightarrow> facility list \<Rightarrow> rates \<times> factors \<Rightarrow> error + rates \<times> factors" where
  "adjust_facilities item production_ratio [] s = Inr s"
| "adjust_facilities item production_ratio (f # fs) s =
     (let (adjusted_inputs, adjusted_outputs) = get_adjusted_rates f
      in if list_ex (\<lambda>(input_item, _). input_item = item) adjusted_inputs
         then (case adjust_outputs item production_ratio adjusted_outputs s of
                 Inl e \<Rightarrow> Inl e
               | Inr s' \<Rightarrow> adjust_facilities item production_ratio fs s')
         else adjust_facilities item production_ratio fs s)"

text \<open>
  Lines 75--78, the loop over \<open>total_consumption.items()\<close>. The comparison and the
  division read the production total as it is when the item is visited. A float division
  by zero raises \<open>ZeroDivisionError\<close>.
\<close>

fun shortage_pass ::
  "facility list \<Rightarrow> (string \<times> rat) list \<Rightarrow> rates \<times> factors \<Rightarrow> error + rates \<times> factors" where
  "shortage_pass fs [] s = Inr s"
| "shortage_pass fs ((item, consumption) # rest) (total_production, limiting_factors) =
     (if consumption > dict_get total_production item 0 then
        (if consumption = 0 then Inl ZeroDivisionError
         else
           let production_ratio = round_float (dict_get total_production item 0 / consumption) 4;
               limiting_factors' = dict_set limiting_factors item []
           in case adjust_facilities item production_ratio fs (total_production, limiting_factors') of
                Inl e \<Rightarrow> Inl e
              | Inr s' \<Rightarrow> shortage_pass fs rest s')
      else shortage_pass fs rest (total_production, limiting_factors))"

definition calculate_production_rates ::
  "production_graph \<Rightarrow> error + rates \<times> rates \<times> factors" where
  "calculate_production_rates g =
     (let (total_production, total_consumption) = aggregate g
      in case shortage_pass (all_facilities g) total_consumption (total_production, []) of
           Inl e \<Rightarrow> Inl e
         | Inr (total_production', limiting_factors) \<Rightarrow>
             Inr (total_production', total_consumption, limiting_factors))"

subsection \<open>identify_bottlenecks\<close>

text \<open>
  The values a returned tuple can hold. \<open>production, consumption = t\<close> unpacks a tuple into
  two targets and raises \<open>ValueError\<close> unless the tuple has exactly two items.
\<close>

datatype component = Rates rates | Factors factors

definition tuple_items :: "rates \<times> rates \<times> factors \<Rightarrow> component list" where
  "tuple_items t = (case t of (p, c, lf) \<Rightarrow> [Rates p, Rates c, Factors lf])"

fun unpack_two :: "component list \<Rightarrow> error + component \<times> component" where
  "unpack_two [a, b] = Inr (a, b)"
| "unpack_two _ = Inl ValueError"

text \<open>
  Lines 101--110, the loop over the union of the two key sets. A Python set has no
  defined iteration order; the model visits the production keys, then the consumption
  keys not seen yet.
\<close>

definition bottleneck_loop :: "rates \<Rightarrow> rates \<Rightarrow> rates" where
  "bottleneck_loop production consumption =
     fold (\<lambda>item bottlenecks.
             let prod_rate = dict_get production item 0;
                 cons_rate = dict_get consumption item 0;
                 deficit = round_float (cons_rate - prod_rate) 2
             in if deficit > 0 then dict_set bottlenecks item deficit else bottlenecks)
          (remdups (dict_keys production @ dict_keys consumption)) []"

definition identify_bottlenecks :: "production_graph \<Rightarrow> error + rates" where
  "identify_bottlenecks g =
     (case calculate_production_rates g of
        Inl e \<Rightarrow> Inl e
      | Inr t \<Rightarrow>
          (case unpack_two (tuple_items t) of
             Inl e \<Rightarrow> Inl e
           | Inr (Rates production, Rates consumption) \<Rightarrow> Inr (bottleneck_loop production consumption)
           | Inr _ \<Rightarrow> Inl TypeError))"

subsection \<open>calculate_production_rates_for_base\<close>

definition calculate_production_rates_for_base ::
  "production_graph \<Rightarrow> int \<Rightarrow> rates \<times> rates" where
  "calculate_production_rates_for_base g bid =
     (if \<not> dict_contains (bases g) bid then ([], [])
      else
        let b = the (map_of (bases g) bid);
            production = add_nodes (dict_values (nodes b)) []
        in fold add_facility_rates (dict_values (facilities b)) (production, []))"

text \<open>
  The method as a call on the engine: the result and the engine afterwards. The body of
  the source assigns to its two local dictionaries only.
\<close>

definition for_base_call ::
  "int \<Rightarrow> production_graph \<Rightarrow> (rates \<times> rates) \<times> production_graph" where
  "for_base_call bid g = (calculate_production_rates_for_base g bid, g)"

section \<open>Notions the statements use\<close>

text \<open>
  The purity multiplier as the specification tabulates it: 0.5 for Impure, 1 for Normal,
  2 for Pure.
\<close>

definition spec_multiplier :: "string \<Rightarrow> rat" where
  "spec_multiplier p =
     (if p = ''Impure'' then 1 / 2 else if p = ''Normal'' then 1 else 2)"

text \<open>The clamp of a clock speed as the specification words it.\<close>

definition spec_clamp :: "rat \<Rightarrow> rat" where
  "spec_clamp x = (if x > 250 then 250 else if x < 1 / 1000 then 1 / 1000 else x)"

text \<open>
  A total that is re-rounded to two decimals after each addition, starting from the
  default 0 of \<open>get\<close>.
\<close>

definition rounded_sum :: "rat list \<Rightarrow> rat" where
  "rounded_sum rs = fold (\<lambda>r acc. round_float (acc + r) 2) rs 0"

text \<open>The rates of the entries named \<open>k\<close>, in list order.\<close>

definition rates_named :: "string \<Rightarrow> (string \<times> rat) list \<Rightarrow> rat list" where
  "rates_named k es = map snd (filter (\<lambda>e. fst e = k) es)"

text \<open>What the nodes of a dictionary contribute: (resource type, output rate), in order.\<close>

definition node_entries :: "(int, resource_node) dict \<Rightarrow> (string \<times> rat) list" where
  "node_entries ns = map (\<lambda>n. (resource_type n, output_rate n)) (dict_values ns)"

text \<open>The adjusted inputs, and the adjusted outputs, of a list of facilities, in order.\<close>

definition input_entries :: "facility list \<Rightarrow> (string \<times> rat) list" where
  "input_entries fs = concat (map (\<lambda>f. fst (get_adjusted_rates f)) fs)"

definition output_entries :: "facility list \<Rightarrow> (string \<times> rat) list" where
  "output_entries fs = concat (map (\<lambda>f. snd (get_adjusted_rates f)) fs)"

text \<open>Everything one site produces and consumes by itself.\<close>

definition site_production_entries :: "base \<Rightarrow> (string \<times> rat) list" where
  "site_production_entries b =
     node_entries (nodes b) @ output_entries (dict_values (facilities b))"

definition site_consumption_entries :: "base \<Rightarrow> (string \<times> rat) list" where
  "site_consumption_entries b = input_entries (dict_values (facilities b))"

text \<open>Everything the whole graph produces and consumes, in the order of the global passes.\<close>

definition graph_production_entries :: "production_graph \<Rightarrow> (string \<times> rat) list" where
  "graph_production_entries g =
     concat (map (\<lambda>b. node_entries (nodes b)) (dict_values (bases g)))
     @ node_entries (unlinked_nodes g)
     @ output_entries (all_facilities g)"

definition graph_consumption_entries :: "production_graph \<Rightarrow> (string \<times> rat) list" where
  "graph_consumption_entries g = input_entries (all_facilities g)"

text \<open>
  The adjusted outputs of the facilities that list \<open>item\<close> among their adjusted inputs,
  in the order the shortage pass visits them.
\<close>

definition lists_input :: "string \<Rightarrow> facility \<Rightarrow> bool" where
  "lists_input item f = (item \<in> fst ` set (fst (get_adjusted_rates f)))"

definition throttled_outputs :: "facility list \<Rightarrow> string \<Rightarrow> (string \<times> rat) list" where
  "throttled_outputs fs item = output_entries (filter (lists_input item) fs)"

text \<open>
  A total from which the discount \<open>rate * (1 - ratio)\<close> is subtracted once per rate and
  that is re-rounded to two decimals after each subtraction.
\<close>

definition discounted :: "rat \<Rightarrow> rat \<Rightarrow> rat list \<Rightarrow> rat" where
  "discounted ratio start rs = fold (\<lambda>r acc. round_float (acc - r * (1 - ratio)) 2) rs start"

text \<open>
  The resources recorded as a limiting factor of some item, and the facilities that list
  one of them among their adjusted inputs.
\<close>

definition limiting_resources :: "factors \<Rightarrow> string list" where
  "limiting_resources lf = concat (dict_values lf)"

definition throttled :: "factors \<Rightarrow> facility \<Rightarrow> bool" where
  "throttled lf f = list_ex (\<lambda>x. lists_input x f) (limiting_resources lf)"

text \<open>
  The shortage pass as the specification words it: a resource is short when its
  consumption exceeds the production total accumulated by the aggregation passes, the
  ratio is taken from that accumulated total, and a shortage that the discounts
  themselves create is not propagated. Only the totals that are discounted change
  during the pass; \<open>accumulated\<close> stays as it was.
\<close>

fun claimed_pass ::
  "facility list \<Rightarrow> rates \<Rightarrow> (string \<times> rat) list \<Rightarrow> rates \<times> factors \<Rightarrow> error + rates \<times> factors" where
  "claimed_pass fs accumulated [] s = Inr s"
| "claimed_pass fs accumulated ((item, consumption) # rest) (total_production, limiting_factors) =
     (if consumption > dict_get accumulated item 0 then
        (if consumption = 0 then Inl ZeroDivisionError
         else
           let production_ratio = round_float (dict_get accumulated item 0 / consumption) 4;
               limiting_factors' = dict_set limiting_factors item []
           in case adjust_facilities item production_ratio fs (total_production, limiting_factors') of
                Inl e \<Rightarrow> Inl e
              | Inr s' \<Rightarrow> claimed_pass fs accumulated rest s')
      else claimed_pass fs accumulated rest (total_production, limiting_factors))"

definition claimed_production_rates ::
  "production_graph \<Rightarrow> error + rates \<times> rates \<times> factors" where
  "claimed_production_rates g =
     (let (accumulated, total_consumption) = aggregate g
      in case claimed_pass (all_facilities g) accumulated total_consumption (accumulated, []) of
           Inl e \<Rightarrow> Inl e
         | Inr (total_production', limiting_factors) \<Rightarrow>
             Inr (total_production', total_consumption, limiting_factors))"

text \<open>The rounded deficit of a resource, consumption minus production.\<close>

definition deficit :: "rates \<Rightarrow> rates \<Rightarrow> string \<Rightarrow> rat" where
  "deficit production consumption item =
     round_float (dict_get consumption item 0 - dict_get production item 0) 2"

text \<open>A node whose fields are consistent: valid purity, clock speed in range, cached rate up to date.\<close>

definition node_ok :: "resource_node \<Rightarrow> bool" where
  "node_ok n \<longleftrightarrow> purity n \<in> {''Impure'', ''Normal'', ''Pure''} \<and>
     1 / 1000 \<le> node_clock_speed n \<and> node_clock_speed n \<le> 250 \<and>
     output_rate n = spec_multiplier (purity n) * miner_rate n * (node_clock_speed n / 100)"

section \<open>Concrete graphs\<close>

text \<open>
  Scenario A of the specification and of \<open>test_calculate_production_rates\<close>: one base with
  one Normal Iron Ore node of base rate 60 and one smelter, Iron Ore 30 to Iron Ingot 30.
\<close>

definition iron_node :: resource_node where
  "iron_node = \<lparr>node_id = 1, resource_type = ''Iron Ore'', purity = ''Normal'',
     miner_type = ''Miner Mk.1'', miner_rate = 60, node_clock_speed = 100, output_rate = 60\<rparr>"

definition smelter :: facility where
  "smelter = set_output_item (set_input_item (Facility_init 1 ''Smelter'' ''Iron Ingot'')
     ''Iron Ore'' 30) ''Iron Ingot'' 30"

definition scenario_A :: production_graph where
  "scenario_A = add_base ProductionGraph_init
     (add_facility (add_node (Base_init 1 ''Main Base'') iron_node) smelter)"

text \<open>The smelter of scenario A alone, with no node feeding it.\<close>

definition starved_smelter :: production_graph where
  "starved_smelter = add_base ProductionGraph_init
     (add_facility (Base_init 1 ''Main Base'') smelter)"

text \<open>
  A chain of two facilities and no node: the first turns 10 of A into 10 of B, the second
  10 of B into 10 of C.
\<close>

definition chain_first :: facility where
  "chain_first = set_output_item (set_input_item (Facility_init 1 ''Constructor'' ''Custom'')
     ''A'' 10) ''B'' 10"

definition chain_second :: facility where
  "chain_second = set_output_item (set_input_item (Facility_init 2 ''Constructor'' ''Custom'')
     ''B'' 10) ''C'' 10"

definition chain_graph :: production_graph where
  "chain_graph = add_base ProductionGraph_init
     (add_facility (add_facility (Base_init 1 ''Main Base'') chain_first) chain_second)"

text \<open>
  An assembler that needs 30 of A and 30 of B for 30 of C, neither A nor B being
  produced, and a constructor that takes 30 of C at the lowest clock speed, set with
  \<open>set_clock_speed(0)\<close>.
\<close>

definition assembler :: facility where
  "assembler = set_output_item (set_input_item (set_input_item
     (Facility_init 1 ''Assembler'' ''Custom'') ''A'' 30) ''B'' 30) ''C'' 30"

definition slow_constructor :: facility where
  "slow_constructor = Facility_set_clock_speed (set_output_item (set_input_item
     (Facility_init 2 ''Constructor'' ''Custom'') ''C'' 30) ''D'' 30) 0"

definition zero_consumption_graph :: production_graph where
  "zero_consumption_graph = add_base ProductionGraph_init
     (add_facility (add_facility (Base_init 1 ''Main Base'') assembler) slow_constructor)"

text \<open>Two sites and an unlinked node, for the scoped aggregation.\<close>

definition copper_node :: resource_node where
  "copper_node = \<lparr>node_id = 2, resource_type = ''Copper Ore'', purity = ''Pure'',
     miner_type = ''Miner Mk.2'', miner_rate = 120, node_clock_speed = 100, output_rate = 240\<rparr>"

definition two_sites :: production_graph where
  "two_sites = add_unlinked_node
     (add_base
        (add_base ProductionGraph_init
           (add_facility (add_node (Base_init 1 ''Main Base'') iron_node) smelter))
        (add_facility (Base_init 2 ''Outpost'') chain_first))
     copper_node"

text \<open>The second site of that graph.\<close>

definition outpost :: base where
  "outpost = add_facility (Base_init 2 ''Outpost'') chain_first"

section \<open>Dictionary lemmas\<close>


lemma map_of_dict_set: "map_of (dict_set d k v) = (map_of d)(k \<mapsto> v)"
  by (induction d) (auto simp: fun_eq_iff)

lemma dict_keys_dict_set:
  "dict_keys (dict_set d k v) = (if k \<in> set (dict_keys d) then dict_keys d else dict_keys d @ [k])"
  by (induction d) (force simp: dict_keys_def)+

lemma dict_get_dict_set:
  "dict_get (dict_set d k v) k' dflt = (if k' = k then v else dict_get d k' dflt)"
  by (simp add: dict_get_def map_of_dict_set)

lemma dict_contains_iff: "dict_contains d k \<longleftrightarrow> map_of d k \<noteq> None"
  by (simp add: dict_contains_def dict_keys_def map_of_eq_None_iff)

section \<open>Facility rates\<close>

text \<open>
  Claim C8. A facility whose active flag is false has the adjusted rates \<open>([], [])\<close>,
  whatever its clock speed and its stored item lists are. An active facility returns every
  stored entry, in list order and with duplicates kept, its rate multiplied by
  \<open>clock_speed / 100\<close>.
\<close>

theorem get_adjusted_rates_spec:
  "(\<not> is_active f \<longrightarrow> get_adjusted_rates f = ([], [])) \<and>
   (is_active f \<longrightarrow>
      get_adjusted_rates f =
        (map (\<lambda>(item, rate). (item, rate * (clock_speed f / 100))) (input_items f),
         map (\<lambda>(item, rate). (item, rate * (clock_speed f / 100))) (output_items f))
      \<and> map fst (fst (get_adjusted_rates f)) = map fst (input_items f)
      \<and> map fst (snd (get_adjusted_rates f)) = map fst (output_items f)
      \<and> map snd (fst (get_adjusted_rates f))
          = map (\<lambda>rate. rate * (clock_speed f / 100)) (map snd (input_items f))
      \<and> map snd (snd (get_adjusted_rates f))
          = map (\<lambda>rate. rate * (clock_speed f / 100)) (map snd (output_items f)))"
  by (simp add: get_adjusted_rates_def comp_def case_prod_unfold)

text \<open>
  The smelter at clock speed 50: switched off it reports nothing; switched on, with a
  second Iron Ore input of 12, it reports both Iron Ore entries, halved.
\<close>

theorem get_adjusted_rates_spec_witness:
  "get_adjusted_rates (toggle_active_state (Facility_set_clock_speed smelter 50)) = ([], []) \<and>
   get_adjusted_rates (Facility_set_clock_speed (set_input_item smelter ''Iron Ore'' 12) 50)
     = ([(''Iron Ore'', 15), (''Iron Ore'', 6)], [(''Iron Ingot'', 15)])"
  using get_adjusted_rates_spec [of "toggle_active_state (Facility_set_clock_speed smelter 50)"]
    get_adjusted_rates_spec [of "Facility_set_clock_speed (set_input_item smelter ''Iron Ore'' 12) 50"]
  by (simp add: toggle_active_state_def Facility_set_clock_speed_def smelter_def
      set_input_item_def set_output_item_def Facility_init_def)

section \<open>Clock speed and output rate\<close>

lemma clamp_eq: "max (1 / 1000) (min 250 x) = spec_clamp (x::rat)"
  by (simp add: spec_clamp_def max_def min_def)

lemma spec_clamp_range: "1 / 1000 \<le> spec_clamp x \<and> spec_clamp x \<le> 250"
  by (simp add: spec_clamp_def)

lemma facility_do_range:
  "1 / 1000 \<le> clock_speed f \<and> clock_speed f \<le> 250 \<Longrightarrow>
   1 / 1000 \<le> clock_speed (facility_do c f) \<and> clock_speed (facility_do c f) \<le> 250"
proof (cases c)
  case (SetClockSpeed x)
  with spec_clamp_range [of x] show ?thesis
    by (simp add: Facility_set_clock_speed_def clamp_eq)
qed (simp_all add: set_input_item_def set_output_item_def toggle_active_state_def update_recipe_def)

lemma facility_after_range:
  "1 / 1000 \<le> clock_speed f \<and> clock_speed f \<le> 250 \<Longrightarrow>
   1 / 1000 \<le> clock_speed (facility_after f cs) \<and> clock_speed (facility_after f cs) \<le> 250"
  unfolding facility_after_def
proof (induction cs arbitrary: f)
  case Nil
  then show ?case by simp
next
  case (Cons c cs)
  from Cons.IH [OF facility_do_range [OF Cons.prems, of c]] show ?case by simp
qed

lemma valid_purity_index:
  "p \<in> {''Impure'', ''Normal'', ''Pure''} \<Longrightarrow> dict_index purity_multiplier p = Inr (spec_multiplier p)"
  by (auto simp: dict_index_def purity_multiplier_def spec_multiplier_def)

lemma invalid_purity_index:
  "p \<notin> {''Impure'', ''Normal'', ''Pure''} \<Longrightarrow> dict_index purity_multiplier p = Inl KeyError"
  by (auto simp: dict_index_def purity_multiplier_def)

lemma calculate_output_rate_valid:
  "purity n \<in> {''Impure'', ''Normal'', ''Pure''} \<Longrightarrow>
   calculate_output_rate n = Inr (spec_multiplier (purity n) * miner_rate n * (node_clock_speed n / 100))"
  by (simp add: calculate_output_rate_def valid_purity_index)

lemma init_valid:
  "pur \<in> {''Impure'', ''Normal'', ''Pure''} \<Longrightarrow>
   ResourceNode_init nid rt pur mt rate =
     Inr \<lparr>node_id = nid, resource_type = rt, purity = pur, miner_type = mt, miner_rate = rate,
          node_clock_speed = 100, output_rate = spec_multiplier pur * rate * (100 / 100)\<rparr>"
  by (simp add: ResourceNode_init_def calculate_output_rate_valid)

lemma init_Inr_purity:
  "ResourceNode_init nid rt pur mt rate = Inr n \<Longrightarrow> pur \<in> {''Impure'', ''Normal'', ''Pure''}"
  by (cases "pur \<in> {''Impure'', ''Normal'', ''Pure''}")
     (simp_all add: ResourceNode_init_def calculate_output_rate_def invalid_purity_index del: insert_iff)

lemma set_clock_valid:
  "purity n \<in> {''Impure'', ''Normal'', ''Pure''} \<Longrightarrow>
   ResourceNode_set_clock_speed n x =
     Inr (n\<lparr>node_clock_speed := spec_clamp x,
            output_rate := spec_multiplier (purity n) * miner_rate n * (spec_clamp x / 100)\<rparr>)"
  by (simp add: ResourceNode_set_clock_speed_def calculate_output_rate_valid clamp_eq)

lemma node_after_ok:
  "node_ok n \<Longrightarrow> \<exists>n'. node_after n cs = Inr n' \<and> node_ok n' \<and> purity n' = purity n \<and> miner_rate n' = miner_rate n"
proof (induction cs arbitrary: n)
  case Nil
  then show ?case by simp
next
  case (Cons c cs)
  let ?m = "n\<lparr>node_clock_speed := spec_clamp c,
            output_rate := spec_multiplier (purity n) * miner_rate n * (spec_clamp c / 100)\<rparr>"
  from Cons.prems have p: "purity n \<in> {''Impure'', ''Normal'', ''Pure''}" by (simp add: node_ok_def)
  have step: "ResourceNode_set_clock_speed n c = Inr ?m" by (rule set_clock_valid [OF p])
  have ok: "node_ok ?m" using p spec_clamp_range [of c] by (simp add: node_ok_def)
  from Cons.IH [OF ok] step show ?case by simp
qed


text \<open>
  Claim C5. For a purity among Impure, Normal and Pure the derived output rate of a node
  is \<open>multiplier * miner_rate * (clock_speed / 100)\<close>, with multiplier 0.5, 1 and 2. The
  cached \<open>output_rate\<close> has that value after construction, at clock speed 100, and after
  every sequence of \<open>set_clock_speed\<close> calls, the stored clock speed then lying between
  0.001 and 250.
\<close>

theorem output_rate_formula:
  assumes "pur \<in> {''Impure'', ''Normal'', ''Pure''}"
  shows "(\<forall>n. purity n = pur \<longrightarrow>
            calculate_output_rate n = Inr (spec_multiplier pur * miner_rate n * (node_clock_speed n / 100)))
       \<and> (\<exists>n. ResourceNode_init nid rt pur mt rate = Inr n
            \<and> node_clock_speed n = 100
            \<and> output_rate n = spec_multiplier pur * rate * (100 / 100)
            \<and> (\<forall>cs. \<exists>n'. node_after n cs = Inr n'
                  \<and> 1 / 1000 \<le> node_clock_speed n' \<and> node_clock_speed n' \<le> 250
                  \<and> output_rate n' = spec_multiplier pur * rate * (node_clock_speed n' / 100)))"
proof (intro conjI allI impI)
  fix n :: resource_node
  assume "purity n = pur"
  with assms calculate_output_rate_valid [of n]
  show "calculate_output_rate n = Inr (spec_multiplier pur * miner_rate n * (node_clock_speed n / 100))"
    by simp
next
  let ?n = "\<lparr>node_id = nid, resource_type = rt, purity = pur, miner_type = mt, miner_rate = rate,
          node_clock_speed = 100, output_rate = spec_multiplier pur * rate * (100 / 100)\<rparr>"
  have ok: "node_ok ?n" using assms by (simp add: node_ok_def)
  have later: "\<exists>n'. node_after ?n cs = Inr n'
                  \<and> 1 / 1000 \<le> node_clock_speed n' \<and> node_clock_speed n' \<le> 250
                  \<and> output_rate n' = spec_multiplier pur * rate * (node_clock_speed n' / 100)" for cs
  proof -
    from node_after_ok [OF ok, of cs] obtain n' where
      n': "node_after ?n cs = Inr n'" "node_ok n'" "purity n' = purity ?n" "miner_rate n' = miner_rate ?n"
      by blast
    then show ?thesis by (simp add: node_ok_def)
  qed
  show "\<exists>n. ResourceNode_init nid rt pur mt rate = Inr n
            \<and> node_clock_speed n = 100
            \<and> output_rate n = spec_multiplier pur * rate * (100 / 100)
            \<and> (\<forall>cs. \<exists>n'. node_after n cs = Inr n'
                  \<and> 1 / 1000 \<le> node_clock_speed n' \<and> node_clock_speed n' \<le> 250
                  \<and> output_rate n' = spec_multiplier pur * rate * (node_clock_speed n' / 100))"
    using init_valid [OF assms, of nid rt mt rate] later by (intro exI [of _ ?n]) simp
qed

text \<open>A Pure node of base rate 120, then overclocked to 150 and set to 0.\<close>

theorem output_rate_formula_witness:
  "''Pure'' \<in> {''Impure'', ''Normal'', ''Pure''}
   \<and> calculate_output_rate copper_node = Inr (2 * 120 * (100 / 100))
   \<and> (\<exists>n. ResourceNode_init 2 ''Copper Ore'' ''Pure'' ''Miner Mk.2'' 120 = Inr n
        \<and> output_rate n = 2 * 120 * (100 / 100)
        \<and> (\<exists>n'. node_after n [150, 0] = Inr n'
              \<and> output_rate n' = 2 * 120 * (node_clock_speed n' / 100)))"
proof -
  have h: "''Pure'' \<in> {''Impure'', ''Normal'', ''Pure''}" by simp
  have m: "spec_multiplier ''Pure'' = 2" by (simp add: spec_multiplier_def)
  have c: "purity copper_node = ''Pure''" "miner_rate copper_node = 120" "node_clock_speed copper_node = 100"
    by (simp_all add: copper_node_def)
  from output_rate_formula [OF h, of 2 "''Copper Ore''" "''Miner Mk.2''" 120]
  show ?thesis unfolding m using c by (metis h)
qed

text \<open>
  Claim C6. The stored clock speed is 100 at construction and stays within 0.001 and 250:
  for a facility after any sequence of its mutating methods, for a node after any
  sequence of \<open>set_clock_speed\<close> calls. \<open>set_clock_speed x\<close> stores 250 for \<open>x\<close> above 250,
  0.001 for \<open>x\<close> below 0.001 and \<open>x\<close> otherwise, and on a constructed node it raises
  nothing.
\<close>

theorem clock_speed_in_range:
  "clock_speed (Facility_init fid ft r) = 100
   \<and> 1 / 1000 \<le> clock_speed (facility_after (Facility_init fid ft r) calls)
   \<and> clock_speed (facility_after (Facility_init fid ft r) calls) \<le> 250
   \<and> clock_speed (Facility_set_clock_speed f x) = spec_clamp x
   \<and> (ResourceNode_init nid rt pur mt rate = Inr n \<longrightarrow>
        node_clock_speed n = 100
        \<and> (\<exists>n'. node_after n cs = Inr n'
              \<and> 1 / 1000 \<le> node_clock_speed n' \<and> node_clock_speed n' \<le> 250
              \<and> (\<exists>n''. ResourceNode_set_clock_speed n' x = Inr n''
                    \<and> node_clock_speed n'' = spec_clamp x)))"
proof (intro conjI impI)
  show "clock_speed (Facility_init fid ft r) = 100" by (simp add: Facility_init_def)
  have "1 / 1000 \<le> clock_speed (Facility_init fid ft r) \<and> clock_speed (Facility_init fid ft r) \<le> 250"
    by (simp add: Facility_init_def)
  from facility_after_range [OF this, of calls]
  show "1 / 1000 \<le> clock_speed (facility_after (Facility_init fid ft r) calls)"
    and "clock_speed (facility_after (Facility_init fid ft r) calls) \<le> 250" by simp_all
  show "clock_speed (Facility_set_clock_speed f x) = spec_clamp x"
    by (simp add: Facility_set_clock_speed_def clamp_eq)
next
  assume init: "ResourceNode_init nid rt pur mt rate = Inr n"
  then have p: "pur \<in> {''Impure'', ''Normal'', ''Pure''}" by (rule init_Inr_purity)
  from init init_valid [OF p, of nid rt mt rate]
  have n: "n = \<lparr>node_id = nid, resource_type = rt, purity = pur, miner_type = mt, miner_rate = rate,
          node_clock_speed = 100, output_rate = spec_multiplier pur * rate * (100 / 100)\<rparr>" by simp
  then show "node_clock_speed n = 100" by simp
  from n p have ok: "node_ok n" by (simp add: node_ok_def)
  from node_after_ok [OF ok, of cs] obtain n' where
    n': "node_after n cs = Inr n'" "node_ok n'" by blast
  then have p': "purity n' \<in> {''Impure'', ''Normal'', ''Pure''}" by (simp add: node_ok_def)
  from set_clock_valid [OF p', of x] n'
  show "\<exists>n'. node_after n cs = Inr n'
              \<and> 1 / 1000 \<le> node_clock_speed n' \<and> node_clock_speed n' \<le> 250
              \<and> (\<exists>n''. ResourceNode_set_clock_speed n' x = Inr n''
                    \<and> node_clock_speed n'' = spec_clamp x)"
    by (intro exI [of _ n']) (simp add: node_ok_def)
qed

text \<open>The node and the smelter of scenario A, clocked to 300 and below zero.\<close>

theorem clock_speed_in_range_witness:
  "ResourceNode_init 1 ''Iron Ore'' ''Normal'' ''Miner Mk.1'' 60 = Inr iron_node
   \<and> clock_speed (facility_after (Facility_init 1 ''Smelter'' ''Iron Ingot'')
        [SetClockSpeed 300, ToggleActiveState, SetClockSpeed (- 5)]) \<le> 250
   \<and> clock_speed (Facility_set_clock_speed smelter 300) = 250
   \<and> (\<exists>n'. node_after iron_node [300, 0] = Inr n'
         \<and> 1 / 1000 \<le> node_clock_speed n' \<and> node_clock_speed n' \<le> 250
         \<and> (\<exists>n''. ResourceNode_set_clock_speed n' 300 = Inr n'' \<and> node_clock_speed n'' = 250))"
proof -
  have h: "ResourceNode_init 1 ''Iron Ore'' ''Normal'' ''Miner Mk.1'' 60 = Inr iron_node"
    by (simp add: ResourceNode_init_def calculate_output_rate_def dict_index_def
        purity_multiplier_def iron_node_def)
  have c: "spec_clamp 300 = 250" by (simp add: spec_clamp_def)
  from clock_speed_in_range [of 1 "''Smelter''" "''Iron Ingot''"
      "[SetClockSpeed 300, ToggleActiveState, SetClockSpeed (- 5)]" smelter 300
      1 "''Iron Ore''" "''Normal''" "''Miner Mk.1''" 60 iron_node "[300, 0]"] h
  show ?thesis unfolding c by simp
qed

section \<open>Scoped aggregation\<close>

text \<open>
  Claim C10. For a base id that is not a key of the engine's base dictionary,
  \<open>calculate_production_rates_for_base\<close> returns two empty dictionaries, raises nothing
  and leaves the engine as it was.
\<close>

theorem unknown_base_gives_empty_maps:
  assumes "\<not> dict_contains (bases g) bid"
  shows "for_base_call bid g = (([], []), g)"
  using assms by (simp add: for_base_call_def calculate_production_rates_for_base_def)

text \<open>The graph with bases 1 and 2, asked for base 7.\<close>

theorem unknown_base_gives_empty_maps_witness:
  "\<not> dict_contains (bases two_sites) 7 \<and> for_base_call 7 two_sites = (([], []), two_sites)"
proof -
  have h: "\<not> dict_contains (bases two_sites) 7"
    by (simp add: dict_contains_def dict_keys_def two_sites_def add_base_def add_unlinked_node_def
        ProductionGraph_init_def add_facility_def add_node_def Base_init_def)
  from unknown_base_gives_empty_maps [OF h] h show ?thesis by simp
qed

section \<open>Bottleneck detection\<close>

text \<open>
  \<open>identify_bottlenecks\<close> unpacks the three results of \<open>calculate_production_rates\<close> into
  two names, so it raises whenever that call returns.
\<close>

lemma identify_bottlenecks_never_returns:
  "identify_bottlenecks g =
     (case calculate_production_rates g of Inl e \<Rightarrow> Inl e | Inr t \<Rightarrow> Inl ValueError)"
  by (simp add: identify_bottlenecks_def tuple_items_def split: sum.splits prod.splits)

text \<open>
  Claim C2 says that \<open>identify_bottlenecks\<close> returns the map of the positive rounded
  deficits. On the smelter that no node feeds, Iron Ore is consumed at 30 and not
  produced: the loop of the method, run on the two rate dictionaries, reports the deficit
  30 of Iron Ore, but the method itself raises \<open>ValueError\<close> before it reaches the loop.
\<close>

theorem identify_bottlenecks_starved_smelter:
  "calculate_production_rates starved_smelter
     = Inr ([(''Iron Ingot'', 0)], [(''Iron Ore'', 30)], [(''Iron Ore'', []), (''Iron Ingot'', [''Iron Ore''])])
   \<and> bottleneck_loop [(''Iron Ingot'', 0)] [(''Iron Ore'', 30)] = [(''Iron Ore'', 30)]
   \<and> identify_bottlenecks starved_smelter = Inl ValueError"
  by code_simp

section \<open>Division in the shortage pass\<close>

text \<open>
  Claim C7 says that the divisor of the ratio is always positive. In the graph of the
  assembler and the slow constructor the consumption total of C rounds to 0, and the
  discounts for the two missing inputs A and B bring the production total of C to -30
  before C is visited: 0 exceeds -30, the branch is entered and the division by the
  consumption 0 raises \<open>ZeroDivisionError\<close>.
\<close>

theorem zero_consumption_divides_by_zero:
  "aggregate zero_consumption_graph
     = ([(''C'', 30), (''D'', 0)], [(''A'', 30), (''B'', 30), (''C'', 0)])
   \<and> calculate_production_rates zero_consumption_graph = Inl ZeroDivisionError"
  by code_simp

section \<open>The aggregation passes as accumulations\<close>
lemma add_items_append: "add_items (xs @ ys) d = add_items ys (add_items xs d)"
  by (simp add: add_items_def)

lemma add_items_Cons: "add_items ((k, r) # es) d = add_items es (add_rate d k r)"
  by (simp add: add_items_def)

lemma add_items_Nil: "add_items [] d = d"
  by (simp add: add_items_def)

lemma add_nodes_entries: "add_nodes (dict_values ns) d = add_items (node_entries ns) d"
  by (simp add: add_nodes_def add_items_def node_entries_def fold_map comp_def)

lemma dict_get_add_rate:
  "dict_get (add_rate d item rate) k 0 =
     (if k = item then round_float (dict_get d item 0 + rate) 2 else dict_get d k 0)"
  by (simp add: add_rate_def dict_get_dict_set)

lemma dict_keys_add_rate: "set (dict_keys (add_rate d item rate)) = insert item (set (dict_keys d))"
  by (auto simp: add_rate_def dict_keys_dict_set)

lemma dict_get_add_items:
  "dict_get (add_items es d) k 0 =
     fold (\<lambda>r acc. round_float (acc + r) 2) (rates_named k es) (dict_get d k 0)"
proof (induction es arbitrary: d)
  case Nil
  show ?case by (simp add: add_items_Nil rates_named_def)
next
  case (Cons e es)
  obtain item rate where e: "e = (item, rate)" by (cases e)
  show ?case unfolding e add_items_Cons Cons.IH
    by (simp add: rates_named_def dict_get_add_rate)
qed

lemma dict_keys_add_items: "set (dict_keys (add_items es d)) = set (dict_keys d) \<union> fst ` set es"
proof (induction es arbitrary: d)
  case Nil
  show ?case by (simp add: add_items_Nil)
next
  case (Cons e es)
  obtain item rate where e: "e = (item, rate)" by (cases e)
  show ?case unfolding e add_items_Cons Cons.IH by (simp add: dict_keys_add_rate)
qed

lemma dict_get_empty: "dict_get [] k dflt = dflt"
  by (simp add: dict_get_def)

lemma rounded_total:
  "dict_get (add_items es []) k 0 = rounded_sum (rates_named k es)"
  by (simp add: dict_get_add_items rounded_sum_def dict_get_empty)

lemma add_facility_rates_pair:
  "add_facility_rates f (p, c)
     = (add_items (snd (get_adjusted_rates f)) p, add_items (fst (get_adjusted_rates f)) c)"
  by (simp add: add_facility_rates_def split: prod.splits)

lemma dict_keys_empty: "dict_keys [] = []"
  by (simp add: dict_keys_def)

lemma fold_add_facility_rates:
  "fold add_facility_rates fs (p, c) = (add_items (output_entries fs) p, add_items (input_entries fs) c)"
proof (induction fs arbitrary: p c)
  case Nil
  show ?case by (simp add: output_entries_def input_entries_def add_items_Nil)
next
  case (Cons f fs)
  show ?case
    by (simp add: add_facility_rates_pair Cons.IH output_entries_def input_entries_def add_items_append)
qed

lemma fold_bases_nodes:
  "fold (\<lambda>b d. add_nodes (dict_values (nodes b)) d) bs d
     = add_items (concat (map (\<lambda>b. node_entries (nodes b)) bs)) d"
  by (induction bs arbitrary: d) (simp_all add: add_items_Nil add_items_append add_nodes_entries)

lemma fold_bases_facilities:
  "fold (\<lambda>b s. fold add_facility_rates (dict_values (facilities b)) s) bs (p, c)
     = (add_items (output_entries (concat (map (\<lambda>b. dict_values (facilities b)) bs))) p,
        add_items (input_entries (concat (map (\<lambda>b. dict_values (facilities b)) bs))) c)"
proof (induction bs arbitrary: p c)
  case Nil
  show ?case by (simp add: output_entries_def input_entries_def add_items_Nil)
next
  case (Cons b bs)
  show ?case
    by (simp add: fold_add_facility_rates Cons.IH output_entries_def input_entries_def add_items_append)
qed

lemma raw_production_entries:
  "raw_production g = add_items (concat (map (\<lambda>b. node_entries (nodes b)) (dict_values (bases g)))
      @ node_entries (unlinked_nodes g)) []"
  unfolding raw_production_def fold_bases_nodes add_nodes_entries
  by (simp add: add_items_append)

lemma aggregate_entries:
  "aggregate g = (add_items (graph_production_entries g) [], add_items (graph_consumption_entries g) [])"
  unfolding aggregate_def fold_bases_facilities raw_production_entries
  by (simp add: graph_production_entries_def graph_consumption_entries_def all_facilities_def
      add_items_append)

lemma for_base_entries:
  assumes "map_of (bases g) bid = Some b"
  shows "calculate_production_rates_for_base g bid
     = (add_items (site_production_entries b) [], add_items (site_consumption_entries b) [])"
proof -
  from map_of_SomeD [OF assms] have "dict_contains (bases g) bid"
    by (force simp: dict_contains_def dict_keys_def)
  with assms show ?thesis
    unfolding calculate_production_rates_for_base_def Let_def fold_add_facility_rates add_nodes_entries
    by (simp add: site_production_entries_def site_consumption_entries_def add_items_append)
qed

lemma rounded_sum_snoc: "rounded_sum (rs @ [r]) = round_float (rounded_sum rs + r) 2"
  by (simp add: rounded_sum_def)

lemma round_float_tie: "round_float (of_nat m / 100 + 5 / 1000) 2 = of_nat m / 100 + 1 / 100"
proof -
  let ?v = "of_nat m / 100 + 5 / 1000 :: rat"
  have pos: "0 < ?v" by (simp add: add_nonneg_pos)
  have e: "\<bar>?v\<bar> * 10 ^ 2 + 1 / 2 = of_int (int m + 1)"
    unfolding abs_of_pos [OF pos] by (simp add: distrib_right)
  have fl: "\<lfloor>\<bar>?v\<bar> * 10 ^ 2 + 1 / 2\<rfloor> = int m + 1"
    unfolding e by (rule floor_of_int)
  show ?thesis unfolding round_float_def Let_def fl sgn_pos [OF pos]
    by (simp add: add_divide_distrib)
qed

text \<open>
  Claim C3. After the aggregation passes, the production total of every resource is the
  total obtained by adding its contributions one at a time, in the order of the passes,
  and rounding to two decimals after each addition; so is its consumption total. The
  rounding is half-up: a value ending in 0.005 goes up to the next hundredth. For scenario
  A (a Normal Iron Ore node of base rate 60 at clock 100, a smelter taking 30 Iron Ore
  for 30 Iron Ingot) the result is production Iron Ore 60, Iron Ingot 30 and consumption
  Iron Ore 30.
\<close>

theorem aggregation_rounds_after_each_addition:
  "dict_get (fst (aggregate g)) k 0 = rounded_sum (rates_named k (graph_production_entries g))
   \<and> dict_get (snd (aggregate g)) k 0 = rounded_sum (rates_named k (graph_consumption_entries g))
   \<and> rounded_sum [] = 0
   \<and> rounded_sum (rs @ [r]) = round_float (rounded_sum rs + r) 2
   \<and> round_float (of_nat m / 100 + 5 / 1000) 2 = of_nat m / 100 + 1 / 100
   \<and> round_float (5 / 1000) 2 = 1 / 100
   \<and> ResourceNode_init 1 ''Iron Ore'' ''Normal'' ''Miner Mk.1'' 60 = Inr iron_node
   \<and> calculate_production_rates scenario_A
       = Inr ([(''Iron Ore'', 60), (''Iron Ingot'', 30)], [(''Iron Ore'', 30)], [])"
proof (intro conjI)
  show "dict_get (fst (aggregate g)) k 0 = rounded_sum (rates_named k (graph_production_entries g))"
    by (simp add: aggregate_entries rounded_total)
  show "dict_get (snd (aggregate g)) k 0 = rounded_sum (rates_named k (graph_consumption_entries g))"
    by (simp add: aggregate_entries rounded_total)
  show "rounded_sum [] = 0" by (simp add: rounded_sum_def)
  show "rounded_sum (rs @ [r]) = round_float (rounded_sum rs + r) 2" by (rule rounded_sum_snoc)
  show "round_float (of_nat m / 100 + 5 / 1000) 2 = of_nat m / 100 + 1 / 100" by (rule round_float_tie)
  show "round_float (5 / 1000) 2 = 1 / 100" by code_simp
  show "ResourceNode_init 1 ''Iron Ore'' ''Normal'' ''Miner Mk.1'' 60 = Inr iron_node" by code_simp
  show "calculate_production_rates scenario_A
       = Inr ([(''Iron Ore'', 60), (''Iron Ingot'', 30)], [(''Iron Ore'', 30)], [])" by code_simp
qed

text \<open>
  Claim C4. The scoped aggregation of a site returns, for every resource, the total of
  that site's own node output rates and adjusted facility output rates, rounded after each
  addition and with no discount subtracted, and likewise for consumption; its keys are
  the resources of that site only; and the result is the same in every engine that holds
  the same site under that id, whatever else the engine holds (other sites, unlinked
  nodes).
\<close>

theorem for_base_aggregates_one_site:
  assumes "map_of (bases g) bid = Some b"
  shows "\<exists>production consumption.
      calculate_production_rates_for_base g bid = (production, consumption)
    \<and> (\<forall>k. dict_get production k 0 = rounded_sum (rates_named k (site_production_entries b)))
    \<and> (\<forall>k. dict_get consumption k 0 = rounded_sum (rates_named k (site_consumption_entries b)))
    \<and> set (dict_keys production) = fst ` set (site_production_entries b)
    \<and> set (dict_keys consumption) = fst ` set (site_consumption_entries b)
    \<and> (\<forall>g'. map_of (bases g') bid = Some b \<longrightarrow>
          calculate_production_rates_for_base g' bid = (production, consumption))"
proof (intro exI conjI allI impI)
  show "calculate_production_rates_for_base g bid
     = (add_items (site_production_entries b) [], add_items (site_consumption_entries b) [])"
    by (rule for_base_entries [OF assms])
  show "dict_get (add_items (site_production_entries b) []) k 0
      = rounded_sum (rates_named k (site_production_entries b))" for k
    by (rule rounded_total)
  show "dict_get (add_items (site_consumption_entries b) []) k 0
      = rounded_sum (rates_named k (site_consumption_entries b))" for k
    by (rule rounded_total)
  show "set (dict_keys (add_items (site_production_entries b) [])) = fst ` set (site_production_entries b)"
    by (simp add: dict_keys_add_items dict_keys_empty)
  show "set (dict_keys (add_items (site_consumption_entries b) [])) = fst ` set (site_consumption_entries b)"
    by (simp add: dict_keys_add_items dict_keys_empty)
  show "calculate_production_rates_for_base g' bid
     = (add_items (site_production_entries b) [], add_items (site_consumption_entries b) [])"
    if "map_of (bases g') bid = Some b" for g'
    by (rule for_base_entries [OF that])
qed

text \<open>
  The outpost of the two-site graph: B is reported at its full 10 although A is not
  produced, and neither the Iron Ore of the other site nor the unlinked Copper Ore appears.
\<close>

theorem for_base_aggregates_one_site_witness:
  "map_of (bases two_sites) 2 = Some outpost
   \<and> site_production_entries outpost = [(''B'', 10)]
   \<and> site_consumption_entries outpost = [(''A'', 10)]
   \<and> (\<exists>production consumption.
        calculate_production_rates_for_base two_sites 2 = (production, consumption)
      \<and> dict_get production ''B'' 0 = rounded_sum [10]
      \<and> dict_get production ''Copper Ore'' 0 = rounded_sum []
      \<and> dict_get production ''Iron Ore'' 0 = rounded_sum []
      \<and> set (dict_keys production) = {''B''}
      \<and> set (dict_keys consumption) = {''A''})"
proof -
  have h: "map_of (bases two_sites) 2 = Some outpost" by code_simp
  have p: "site_production_entries outpost = [(''B'', 10)]" by code_simp
  have c: "site_consumption_entries outpost = [(''A'', 10)]" by code_simp
  from for_base_aggregates_one_site [OF h] obtain production consumption where
    r: "calculate_production_rates_for_base two_sites 2 = (production, consumption)"
    and pk: "\<forall>k. dict_get production k 0 = rounded_sum (rates_named k (site_production_entries outpost))"
    and ck: "\<forall>k. dict_get consumption k 0 = rounded_sum (rates_named k (site_consumption_entries outpost))"
    and ks: "set (dict_keys production) = fst ` set (site_production_entries outpost)"
      "set (dict_keys consumption) = fst ` set (site_consumption_entries outpost)"
    and loc: "\<forall>g'. map_of (bases g') 2 = Some outpost \<longrightarrow>
          calculate_production_rates_for_base g' 2 = (production, consumption)"
    by (elim exE conjE)
  have "dict_get production ''B'' 0 = rounded_sum [10]"
    "dict_get production ''Copper Ore'' 0 = rounded_sum []"
    "dict_get production ''Iron Ore'' 0 = rounded_sum []"
    using pk unfolding p by (simp_all add: rates_named_def)
  moreover have "set (dict_keys production) = {''B''}" "set (dict_keys consumption) = {''A''}"
    unfolding ks p c by simp_all
  ultimately show ?thesis using h p c r by (intro conjI exI) assumption+
qed

section \<open>The shortage pass\<close>
lemma dict_set_twice: "dict_set (dict_set d k u) k v = dict_set d k v"
  by (induction d) auto

lemma dict_index_Some: "map_of d k = Some v \<Longrightarrow> dict_index d k = Inr v"
  by (simp add: dict_index_def)

lemma dict_index_None: "map_of d k = None \<Longrightarrow> dict_index d k = Inl KeyError"
  by (simp add: dict_index_def)

lemma dict_keys_map_of: "k \<in> set (dict_keys d) \<longleftrightarrow> map_of d k \<noteq> None"
  by (simp add: dict_keys_def map_of_eq_None_iff)

lemma adjust_outputs_Cons:
  assumes "map_of tp out = Some cur"
  shows "adjust_outputs item ratio ((out, r) # rest) (tp, lf)
     = adjust_outputs item ratio rest
         (dict_set tp out (round_float (cur - r * (1 - ratio)) 2),
          dict_set lf out (dict_get lf out [] @ [item]))"
proof (cases "dict_contains lf out")
  case True
  with assms show ?thesis by (simp add: dict_index_Some)
next
  case False
  then have "map_of lf out = None" by (simp add: dict_contains_iff)
  then have "dict_get lf out [] = []" by (simp add: dict_get_def)
  with assms False show ?thesis
    by (simp add: dict_index_Some dict_get_dict_set dict_set_twice)
qed

lemma adjust_outputs_KeyError:
  assumes "map_of tp out = None"
  shows "adjust_outputs item ratio ((out, r) # rest) (tp, lf) = Inl KeyError"
  using assms by (simp add: dict_index_None)

lemma rates_named_Cons:
  "rates_named k ((out, r) # es) = (if out = k then r # rates_named k es else rates_named k es)"
  by (simp add: rates_named_def)

lemma rates_named_empty: "k \<notin> fst ` set es \<Longrightarrow> rates_named k es = []"
  by (induction es) (auto simp: rates_named_def)

lemma rates_named_append: "rates_named k (xs @ ys) = rates_named k xs @ rates_named k ys"
  by (simp add: rates_named_def)

lemma discounted_Cons:
  "discounted ratio v (r # rs) = discounted ratio (round_float (v - r * (1 - ratio)) 2) rs"
  by (simp add: discounted_def)

lemma discounted_Nil: "discounted ratio v [] = v"
  by (simp add: discounted_def)

text \<open>One run of the inner loop, in closed form.\<close>

lemma adjust_outputs_closed:
  assumes "fst ` set outs \<subseteq> set (dict_keys tp)"
  shows "\<exists>tp' lf'. adjust_outputs item ratio outs (tp, lf) = Inr (tp', lf')
     \<and> dict_keys tp' = dict_keys tp
     \<and> (\<forall>k. map_of tp' k = map_option (\<lambda>v. discounted ratio v (rates_named k outs)) (map_of tp k))
     \<and> (\<forall>k. map_of lf' k =
           (if k \<in> fst ` set outs
            then Some (dict_get lf k [] @ replicate (length (rates_named k outs)) item)
            else map_of lf k))"
  using assms
proof (induction outs arbitrary: tp lf)
  case Nil
  show ?case by (simp add: rates_named_def discounted_Nil option.map_ident)
next
  case (Cons e outs)
  obtain out r where e: "e = (out, r)" by (cases e)
  from Cons.prems e have "out \<in> set (dict_keys tp)" by simp
  then obtain cur where cur: "map_of tp out = Some cur"
    by (auto simp: dict_keys_map_of)
  let ?tp1 = "dict_set tp out (round_float (cur - r * (1 - ratio)) 2)"
  let ?lf1 = "dict_set lf out (dict_get lf out [] @ [item])"
  have keys1: "dict_keys ?tp1 = dict_keys tp"
    using \<open>out \<in> set (dict_keys tp)\<close> by (simp add: dict_keys_dict_set)
  from Cons.prems e have "fst ` set outs \<subseteq> set (dict_keys ?tp1)"
    unfolding keys1 by simp
  from Cons.IH [OF this, of ?lf1] obtain tp' lf' where
    run: "adjust_outputs item ratio outs (?tp1, ?lf1) = Inr (tp', lf')"
    and keys: "dict_keys tp' = dict_keys ?tp1"
    and prod: "\<forall>k. map_of tp' k = map_option (\<lambda>v. discounted ratio v (rates_named k outs)) (map_of ?tp1 k)"
    and fact: "\<forall>k. map_of lf' k =
           (if k \<in> fst ` set outs
            then Some (dict_get ?lf1 k [] @ replicate (length (rates_named k outs)) item)
            else map_of ?lf1 k)"
    by (elim exE conjE)
  have 1: "adjust_outputs item ratio (e # outs) (tp, lf) = Inr (tp', lf')"
    unfolding e adjust_outputs_Cons [OF cur] by (rule run)
  have 2: "dict_keys tp' = dict_keys tp" using keys keys1 by simp
  have 3: "map_of tp' k = map_option (\<lambda>v. discounted ratio v (rates_named k (e # outs))) (map_of tp k)" for k
    using prod [rule_format, of k] cur
    by (simp add: e map_of_dict_set rates_named_Cons discounted_Cons)
  have 4: "map_of lf' k =
           (if k \<in> fst ` set (e # outs)
            then Some (dict_get lf k [] @ replicate (length (rates_named k (e # outs))) item)
            else map_of lf k)" for k
  proof (cases "k = out")
    case True
    show ?thesis
    proof (cases "out \<in> fst ` set outs")
      case True
      with \<open>k = out\<close> fact [rule_format, of k] show ?thesis
        by (simp add: e dict_get_dict_set rates_named_Cons replicate_append_same)
    next
      case False
      with \<open>k = out\<close> fact [rule_format, of k] show ?thesis
        by (simp add: e map_of_dict_set rates_named_Cons rates_named_empty)
    qed
  next
    case False
    with fact [rule_format, of k] show ?thesis
      by (simp add: e map_of_dict_set dict_get_dict_set rates_named_Cons)
  qed
  from 1 2 3 4 show ?case by blast
qed

lemma adjust_outputs_append:
  "adjust_outputs item ratio (xs @ ys) s =
     (case adjust_outputs item ratio xs s of
        Inl e \<Rightarrow> Inl e
      | Inr s' \<Rightarrow> adjust_outputs item ratio ys s')"
proof (induction xs arbitrary: s)
  case Nil
  show ?case by simp
next
  case (Cons x xs)
  obtain out r where x: "x = (out, r)" by (cases x)
  obtain tp lf where s: "s = (tp, lf)" by (cases s)
  show ?case
  proof (cases "map_of tp out")
    case None
    then show ?thesis unfolding x s by (simp add: dict_index_None)
  next
    case (Some cur)
    show ?thesis unfolding x s append_Cons adjust_outputs_Cons [OF Some] by (rule Cons.IH)
  qed
qed

lemma list_ex_lists_input:
  "list_ex (\<lambda>(input_item, _). input_item = item) (fst (get_adjusted_rates f)) \<longleftrightarrow> lists_input item f"
  by (force simp: lists_input_def list_ex_iff image_iff split: prod.splits)

lemma throttled_outputs_Cons:
  "throttled_outputs (f # fs) item =
     (if lists_input item f then snd (get_adjusted_rates f) @ throttled_outputs fs item
      else throttled_outputs fs item)"
  by (simp add: throttled_outputs_def output_entries_def)

lemma adjust_facilities_outputs:
  "adjust_facilities item ratio fs s = adjust_outputs item ratio (throttled_outputs fs item) s"
proof (induction fs arbitrary: s)
  case Nil
  show ?case by (simp add: throttled_outputs_def output_entries_def)
next
  case (Cons f fs)
  obtain ai ao where a: "get_adjusted_rates f = (ai, ao)" by (cases "get_adjusted_rates f")
  have l: "list_ex (\<lambda>(input_item, _). input_item = item) ai \<longleftrightarrow> lists_input item f"
    using list_ex_lists_input [of item f] by (simp add: a)
  show ?case
    by (simp add: a l throttled_outputs_Cons adjust_outputs_append Cons.IH split: sum.splits)
qed


lemma throttled_outputs_subset:
  "set (throttled_outputs fs item) \<subseteq> set (output_entries fs)"
  by (auto simp: throttled_outputs_def output_entries_def)

lemma throttled_outputs_facility:
  assumes "k \<in> fst ` set (throttled_outputs fs item)"
  shows "\<exists>f\<in>set fs. lists_input item f \<and> k \<in> fst ` set (snd (get_adjusted_rates f))"
  using assms by (auto simp: throttled_outputs_def output_entries_def)

lemma dict_get_discounted:
  assumes keys: "fst ` set outs \<subseteq> set (dict_keys tp)"
      and m: "map_of tp' k = map_option (\<lambda>v. discounted ratio v (rates_named k outs)) (map_of tp k)"
  shows "dict_get tp' k 0 = discounted ratio (dict_get tp k 0) (rates_named k outs)"
proof (cases "map_of tp k")
  case None
  then have "k \<notin> set (dict_keys tp)" by (simp add: dict_keys_map_of)
  with keys have "k \<notin> fst ` set outs" by blast
  then have "rates_named k outs = []" by (rule rates_named_empty)
  with None m show ?thesis by (simp add: dict_get_def discounted_Nil)
next
  case (Some v)
  with m show ?thesis by (simp add: dict_get_def)
qed

lemma shortage_pass_skip:
  "\<not> cons > dict_get tp item 0 \<Longrightarrow>
   shortage_pass fs ((item, cons) # rest) (tp, lf) = shortage_pass fs rest (tp, lf)"
  by simp

lemma shortage_pass_zero:
  "cons > dict_get tp item 0 \<Longrightarrow> cons = 0 \<Longrightarrow>
   shortage_pass fs ((item, cons) # rest) (tp, lf) = Inl ZeroDivisionError"
  by simp

lemma shortage_pass_short:
  assumes keys: "fst ` set (throttled_outputs fs item) \<subseteq> set (dict_keys tp)"
      and short: "cons > dict_get tp item 0" and nz: "cons \<noteq> 0"
  shows "\<exists>tp' lf'.
       shortage_pass fs ((item, cons) # rest) (tp, lf) = shortage_pass fs rest (tp', lf')
     \<and> dict_keys tp' = dict_keys tp
     \<and> (\<forall>k. dict_get tp' k 0 =
            discounted (round_float (dict_get tp item 0 / cons) 4) (dict_get tp k 0)
              (rates_named k (throttled_outputs fs item)))
     \<and> (\<forall>k. map_of lf' k =
           (if k \<in> fst ` set (throttled_outputs fs item)
            then Some (dict_get (dict_set lf item []) k []
                       @ replicate (length (rates_named k (throttled_outputs fs item))) item)
            else map_of (dict_set lf item []) k))"
proof -
  let ?ratio = "round_float (dict_get tp item 0 / cons) 4"
  let ?outs = "throttled_outputs fs item"
  from adjust_outputs_closed [OF keys, of item ?ratio "dict_set lf item []"]
  obtain tp' lf' where
    run: "adjust_outputs item ?ratio ?outs (tp, dict_set lf item []) = Inr (tp', lf')"
    and k: "dict_keys tp' = dict_keys tp"
    and p: "\<forall>k. map_of tp' k = map_option (\<lambda>v. discounted ?ratio v (rates_named k ?outs)) (map_of tp k)"
    and f: "\<forall>k. map_of lf' k =
           (if k \<in> fst ` set ?outs
            then Some (dict_get (dict_set lf item []) k [] @ replicate (length (rates_named k ?outs)) item)
            else map_of (dict_set lf item []) k)"
    by (elim exE conjE)
  have "shortage_pass fs ((item, cons) # rest) (tp, lf) = shortage_pass fs rest (tp', lf')"
    using short nz by (simp add: adjust_facilities_outputs run)
  moreover have "\<forall>k. dict_get tp' k 0 = discounted ?ratio (dict_get tp k 0) (rates_named k ?outs)"
    using dict_get_discounted [OF keys] p by blast
  ultimately show ?thesis using k f by (intro exI conjI)
qed


lemma discounted_same: "k \<notin> fst ` set outs \<Longrightarrow> discounted ratio v (rates_named k outs) = v"
  by (simp add: rates_named_empty discounted_Nil)

lemma dict_get_Some_mem: "x \<in> set (dict_get d k []) \<Longrightarrow> \<exists>ys. map_of d k = Some ys \<and> x \<in> set ys"
  by (cases "map_of d k") (simp_all add: dict_get_def)

lemma shortage_pass_inv:
  assumes "fst ` set (output_entries fs) \<subseteq> set (dict_keys tp)"
      and "shortage_pass fs cs (tp, lf) = Inr (tp', lf')"
  shows "dict_keys tp' = dict_keys tp
     \<and> (\<forall>k. map_of lf k \<noteq> None \<longrightarrow> map_of lf' k \<noteq> None)
     \<and> (\<forall>k. dict_get tp' k 0 \<noteq> dict_get tp k 0 \<longrightarrow> map_of lf' k \<noteq> None)
     \<and> (\<forall>k v. (k, v) \<in> set cs \<longrightarrow> v > dict_get tp' k 0 \<longrightarrow> map_of lf' k \<noteq> None)
     \<and> (\<forall>k xs x. map_of lf' k = Some xs \<longrightarrow> x \<in> set xs \<longrightarrow>
           (\<exists>ys. map_of lf k = Some ys \<and> x \<in> set ys)
           \<or> (\<exists>f\<in>set fs. lists_input x f \<and> k \<in> fst ` set (snd (get_adjusted_rates f))))"
  using assms
proof (induction cs arbitrary: tp lf)
  case Nil
  then show ?case by simp
next
  case (Cons c cs)
  obtain item cons where c: "c = (item, cons)" by (cases c)
  show ?case
  proof (cases "cons > dict_get tp item 0")
    case False
    with Cons.prems(2) have run: "shortage_pass fs cs (tp, lf) = Inr (tp', lf')"
      by (simp add: c)
    note ih = Cons.IH [OF Cons.prems(1) run]
    from ih have a: "dict_keys tp' = dict_keys tp" by blast
    from ih have b: "\<forall>k. map_of lf k \<noteq> None \<longrightarrow> map_of lf' k \<noteq> None" by blast
    from ih have cc: "\<forall>k. dict_get tp' k 0 \<noteq> dict_get tp k 0 \<longrightarrow> map_of lf' k \<noteq> None" by blast
    from ih have d: "\<forall>k v. (k, v) \<in> set cs \<longrightarrow> v > dict_get tp' k 0 \<longrightarrow> map_of lf' k \<noteq> None" by blast
    from ih have e: "\<forall>k xs x. map_of lf' k = Some xs \<longrightarrow> x \<in> set xs \<longrightarrow>
           (\<exists>ys. map_of lf k = Some ys \<and> x \<in> set ys)
           \<or> (\<exists>f\<in>set fs. lists_input x f \<and> k \<in> fst ` set (snd (get_adjusted_rates f)))" by blast
    have d': "map_of lf' k \<noteq> None" if "(k, v) \<in> set (c # cs)" "v > dict_get tp' k 0" for k v
    proof (cases "(k, v) = c")
      case True
      with c False that(2) have "dict_get tp' k 0 \<noteq> dict_get tp k 0" by auto
      with cc show ?thesis by blast
    next
      case False
      with that d show ?thesis by auto
    qed
    from a b cc d' e show ?thesis by blast
  next
    case True
    have nz: "cons \<noteq> 0"
    proof
      assume "cons = 0"
      with True Cons.prems(2) show False by (simp add: c)
    qed
    let ?outs = "throttled_outputs fs item"
    let ?lf0 = "dict_set lf item []"
    let ?ratio = "round_float (dict_get tp item 0 / cons) 4"
    have keys: "fst ` set ?outs \<subseteq> set (dict_keys tp)"
      using Cons.prems(1) throttled_outputs_subset [of fs item] by blast
    from shortage_pass_short [OF keys True nz, of cs lf]
    obtain tp1 lf1 where
      step: "shortage_pass fs ((item, cons) # cs) (tp, lf) = shortage_pass fs cs (tp1, lf1)"
      and k1: "dict_keys tp1 = dict_keys tp"
      and p1: "\<forall>k. dict_get tp1 k 0 = discounted ?ratio (dict_get tp k 0) (rates_named k ?outs)"
      and f1: "\<forall>k. map_of lf1 k =
           (if k \<in> fst ` set ?outs
            then Some (dict_get ?lf0 k [] @ replicate (length (rates_named k ?outs)) item)
            else map_of ?lf0 k)"
      by (elim exE conjE)
    from Cons.prems(2) step have run: "shortage_pass fs cs (tp1, lf1) = Inr (tp', lf')"
      by (simp add: c)
    from Cons.prems(1) k1 have pre: "fst ` set (output_entries fs) \<subseteq> set (dict_keys tp1)" by simp
    note ih = Cons.IH [OF pre run]
    from ih have a: "dict_keys tp' = dict_keys tp1" by blast
    from ih have b: "\<forall>k. map_of lf1 k \<noteq> None \<longrightarrow> map_of lf' k \<noteq> None" by blast
    from ih have cc: "\<forall>k. dict_get tp' k 0 \<noteq> dict_get tp1 k 0 \<longrightarrow> map_of lf' k \<noteq> None" by blast
    from ih have d: "\<forall>k v. (k, v) \<in> set cs \<longrightarrow> v > dict_get tp' k 0 \<longrightarrow> map_of lf' k \<noteq> None" by blast
    from ih have e: "\<forall>k xs x. map_of lf' k = Some xs \<longrightarrow> x \<in> set xs \<longrightarrow>
           (\<exists>ys. map_of lf1 k = Some ys \<and> x \<in> set ys)
           \<or> (\<exists>f\<in>set fs. lists_input x f \<and> k \<in> fst ` set (snd (get_adjusted_rates f)))" by blast
    have lf1_item: "map_of lf1 item \<noteq> None"
      using f1 [rule_format, of item] by (simp add: map_of_dict_set)
    have lf1_mono: "map_of lf1 k \<noteq> None" if "map_of lf k \<noteq> None" for k
      using f1 [rule_format, of k] that by (simp add: map_of_dict_set)
    have lf1_outs: "map_of lf1 k \<noteq> None" if "k \<in> fst ` set ?outs" for k
      using f1 [rule_format, of k] that by simp
    have a': "dict_keys tp' = dict_keys tp" using a k1 by simp
    have b': "map_of lf' k \<noteq> None" if "map_of lf k \<noteq> None" for k
      using b lf1_mono [OF that] by blast
    have c': "map_of lf' k \<noteq> None" if neq: "dict_get tp' k 0 \<noteq> dict_get tp k 0" for k
    proof (cases "dict_get tp' k 0 = dict_get tp1 k 0")
      case False
      with cc show ?thesis by blast
    next
      case True
      with neq have "dict_get tp1 k 0 \<noteq> dict_get tp k 0" by simp
      with p1 [rule_format, of k] discounted_same [of k ?outs ?ratio "dict_get tp k 0"]
      have "k \<in> fst ` set ?outs" by auto
      from lf1_outs [OF this] b show ?thesis by blast
    qed
    have d': "map_of lf' k \<noteq> None" if "(k, v) \<in> set (c # cs)" "v > dict_get tp' k 0" for k v
    proof (cases "(k, v) = c")
      case True
      with c have "k = item" by simp
      with lf1_item b show ?thesis by blast
    next
      case False
      with that d show ?thesis by auto
    qed
    have e': "(\<exists>ys. map_of lf k = Some ys \<and> x \<in> set ys)
           \<or> (\<exists>f\<in>set fs. lists_input x f \<and> k \<in> fst ` set (snd (get_adjusted_rates f)))"
      if l: "map_of lf' k = Some xs" and x: "x \<in> set xs" for k xs x
    proof -
      from e l x consider
        (old) ys where "map_of lf1 k = Some ys" "x \<in> set ys"
        | (fac) "\<exists>f\<in>set fs. lists_input x f \<and> k \<in> fst ` set (snd (get_adjusted_rates f))"
        by blast
      then show ?thesis
      proof cases
        case fac
        then show ?thesis by blast
      next
        case old
        show ?thesis
        proof (cases "k \<in> fst ` set ?outs")
          case True
          with old f1 [rule_format, of k]
          have "x \<in> set (dict_get ?lf0 k []) \<or> x = item" by auto
          then show ?thesis
          proof
            assume "x = item"
            with throttled_outputs_facility [OF True] show ?thesis by blast
          next
            assume m: "x \<in> set (dict_get ?lf0 k [])"
            then have "k \<noteq> item" by (auto simp: dict_get_dict_set)
            with m have "x \<in> set (dict_get lf k [])" by (simp add: dict_get_dict_set)
            from dict_get_Some_mem [OF this] show ?thesis by blast
          qed
        next
          case False
          with old f1 [rule_format, of k] have m: "map_of ?lf0 k = Some ys" by simp
          with old(2) have "k \<noteq> item" by (auto simp: map_of_dict_set)
          with m have "map_of lf k = Some ys" by (simp add: map_of_dict_set)
          with old(2) show ?thesis by blast
        qed
      qed
    qed
    from a' b' c' d' e' show ?thesis by blast
  qed
qed


lemma output_keys_aggregated:
  "fst ` set (output_entries (all_facilities g)) \<subseteq> set (dict_keys (fst (aggregate g)))"
  by (auto simp: aggregate_entries dict_keys_add_items graph_production_entries_def)

lemma calculate_production_rates_pass:
  "calculate_production_rates g =
     (case shortage_pass (all_facilities g) (snd (aggregate g)) (fst (aggregate g), []) of
        Inl e \<Rightarrow> Inl e
      | Inr (p, lf) \<Rightarrow> Inr (p, snd (aggregate g), lf))"
  by (cases "aggregate g") (simp add: calculate_production_rates_def split: sum.splits)

lemma mem_limiting_resources:
  "map_of lf k = Some xs \<Longrightarrow> x \<in> set xs \<Longrightarrow> x \<in> set (limiting_resources lf)"
  by (auto simp: limiting_resources_def dict_values_def dest!: map_of_SomeD intro!: bexI [of _ "(k, xs)"])

text \<open>
  Claim C9. When \<open>calculate_production_rates\<close> returns, every resource of the
  consumption map whose consumption exceeds its returned production is a key of the
  limiting-factors map. Every name in its entry is an adjusted input of a facility that
  has the resource among its adjusted outputs; so the entry is the empty list when no
  facility that lists a recorded limiting resource produces it.
\<close>

theorem short_resources_are_keys:
  assumes "calculate_production_rates g = Inr (p, c, lf)"
      and "(k, v) \<in> set c" and "v > dict_get p k 0"
  shows "\<exists>xs. map_of lf k = Some xs
     \<and> (\<forall>x\<in>set xs. \<exists>f\<in>set (all_facilities g).
            lists_input x f \<and> k \<in> fst ` set (snd (get_adjusted_rates f)))
     \<and> ((\<forall>f\<in>set (all_facilities g). throttled lf f \<longrightarrow>
            k \<notin> fst ` set (snd (get_adjusted_rates f))) \<longrightarrow> xs = [])"
proof -
  from assms(1) have run:
    "shortage_pass (all_facilities g) (snd (aggregate g)) (fst (aggregate g), []) = Inr (p, lf)"
    and c: "c = snd (aggregate g)"
    by (auto simp: calculate_production_rates_pass split: sum.splits prod.splits)
  note inv = shortage_pass_inv [OF output_keys_aggregated run]
  from inv have d: "\<forall>k v. (k, v) \<in> set (snd (aggregate g)) \<longrightarrow> v > dict_get p k 0 \<longrightarrow> map_of lf k \<noteq> None"
    by blast
  from inv have e: "\<forall>k xs x. map_of lf k = Some xs \<longrightarrow> x \<in> set xs \<longrightarrow>
           (\<exists>ys. map_of [] k = Some ys \<and> x \<in> set ys)
           \<or> (\<exists>f\<in>set (all_facilities g). lists_input x f \<and> k \<in> fst ` set (snd (get_adjusted_rates f)))"
    by blast
  from d assms(2,3) c obtain xs where xs: "map_of lf k = Some xs" by blast
  have fac: "\<exists>f\<in>set (all_facilities g). lists_input x f \<and> k \<in> fst ` set (snd (get_adjusted_rates f))"
    if "x \<in> set xs" for x
    using e xs that by simp
  have empty: "xs = []"
    if none: "\<forall>f\<in>set (all_facilities g). throttled lf f \<longrightarrow> k \<notin> fst ` set (snd (get_adjusted_rates f))"
  proof (rule ccontr)
    assume "xs \<noteq> []"
    then obtain x where x: "x \<in> set xs" by (cases xs) auto
    from fac [OF x] obtain f where f: "f \<in> set (all_facilities g)" "lists_input x f"
      "k \<in> fst ` set (snd (get_adjusted_rates f))" by blast
    from mem_limiting_resources [OF xs x] f(2) have "throttled lf f"
      by (auto simp: throttled_def list_ex_iff)
    with none f show False by blast
  qed
  from xs fac empty show ?thesis by blast
qed

text \<open>
  The smelter without a node: Iron Ore is short, no facility produces it, and its entry in
  the limiting-factors map is the empty list.
\<close>

theorem short_resources_are_keys_witness:
  "calculate_production_rates starved_smelter
     = Inr ([(''Iron Ingot'', 0)], [(''Iron Ore'', 30)],
            [(''Iron Ore'', []), (''Iron Ingot'', [''Iron Ore''])])
   \<and> (''Iron Ore'', 30) \<in> set [(''Iron Ore'', 30 :: rat)]
   \<and> (30 :: rat) > dict_get [(''Iron Ingot'', 0)] ''Iron Ore'' 0
   \<and> all_facilities starved_smelter = [smelter]
   \<and> snd (get_adjusted_rates smelter) = [(''Iron Ingot'', 30)]
   \<and> map_of [(''Iron Ore'', []), (''Iron Ingot'', [''Iron Ore''])] ''Iron Ore'' = Some []"
proof -
  have r: "calculate_production_rates starved_smelter
     = Inr ([(''Iron Ingot'', 0)], [(''Iron Ore'', 30)],
            [(''Iron Ore'', []), (''Iron Ingot'', [''Iron Ore''])])" by code_simp
  have m: "(''Iron Ore'', 30) \<in> set [(''Iron Ore'', 30 :: rat)]" by simp
  have s: "(30 :: rat) > dict_get [(''Iron Ingot'', 0)] ''Iron Ore'' 0" by (simp add: dict_get_def)
  have fs: "all_facilities starved_smelter = [smelter]" by code_simp
  have outs: "snd (get_adjusted_rates smelter) = [(''Iron Ingot'', 30)]" by code_simp
  have n: "\<forall>f\<in>set (all_facilities starved_smelter).
         throttled [(''Iron Ore'', []), (''Iron Ingot'', [''Iron Ore''])] f \<longrightarrow>
         ''Iron Ore'' \<notin> fst ` set (snd (get_adjusted_rates f))"
    unfolding fs by (simp add: outs)
  from short_resources_are_keys [OF r m s] n
  have "map_of [(''Iron Ore'', []), (''Iron Ingot'', [''Iron Ore''])] ''Iron Ore'' = Some []"
    by auto
  with r m s fs outs show ?thesis by (intro conjI)
qed


text \<open>
  Claim C1 ends: shortages created by the subtractions are never re-propagated. In the
  chain of two facilities the aggregation passes leave B with production 10 and
  consumption 10, so B is not short. The pass visits A first, which is short with ratio 0,
  and cuts B to 0; it then visits B, finds its consumption 10 above the production 0, and
  cuts C from 10 to 0, recording B as the limiting factor of C and replacing the entry
  \<open>[A]\<close> of B by the empty list. The pass as the claim words it leaves C at 10.
\<close>

theorem shortage_repropagated_in_chain:
  "aggregate chain_graph = ([(''B'', 10), (''C'', 10)], [(''A'', 10), (''B'', 10)])
   \<and> calculate_production_rates chain_graph
       = Inr ([(''B'', 0), (''C'', 0)], [(''A'', 10), (''B'', 10)],
              [(''A'', []), (''B'', []), (''C'', [''B''])])
   \<and> claimed_production_rates chain_graph
       = Inr ([(''B'', 0), (''C'', 10)], [(''A'', 10), (''B'', 10)],
              [(''A'', []), (''B'', [''A''])])
   \<and> calculate_production_rates chain_graph \<noteq> claimed_production_rates chain_graph"
proof -
  have a: "aggregate chain_graph = ([(''B'', 10), (''C'', 10)], [(''A'', 10), (''B'', 10)])"
    by code_simp
  have b: "calculate_production_rates chain_graph
       = Inr ([(''B'', 0), (''C'', 0)], [(''A'', 10), (''B'', 10)],
              [(''A'', []), (''B'', []), (''C'', [''B''])])"
    by code_simp
  have c: "claimed_production_rates chain_graph
       = Inr ([(''B'', 0), (''C'', 10)], [(''A'', 10), (''B'', 10)],
              [(''A'', []), (''B'', [''A''])])"
    by code_simp
  show ?thesis unfolding a b c by simp
qed

text \<open>
  Claim C1 as amended. \<open>calculate_production_rates\<close> runs one pass, in insertion order,
  over the consumption map of the aggregation passes, starting from their production
  totals and an empty limiting-factors map; every output of a facility is a key of those
  totals, and the keys never change. When the pass visits a resource whose consumption
  does not exceed the production total as it stands then, nothing changes. When the
  consumption exceeds that total and is not zero, the ratio is
  \<open>round(production / consumption, 4)\<close> of that total, the entry of the resource itself
  becomes the empty list, and over the adjusted outputs of the facilities that list the
  resource among their adjusted inputs, in order: each production total has
  \<open>rate * (1 - ratio)\<close> subtracted once per output entry of that name, rounded to two
  decimals after each subtraction, and each such output item gets the resource appended to
  its limiting-factors entry once per entry. The rest of the pass continues from the
  totals so changed.
\<close>

theorem shortage_pass_visit:
  "calculate_production_rates g =
     (case shortage_pass (all_facilities g) (snd (aggregate g)) (fst (aggregate g), []) of
        Inl e \<Rightarrow> Inl e
      | Inr (p, lf) \<Rightarrow> Inr (p, snd (aggregate g), lf))
   \<and> fst ` set (throttled_outputs (all_facilities g) item) \<subseteq> set (dict_keys (fst (aggregate g)))
   \<and> (fst ` set (throttled_outputs fs item) \<subseteq> set (dict_keys tp) \<longrightarrow>
        (\<not> cons > dict_get tp item 0 \<longrightarrow>
           shortage_pass fs ((item, cons) # rest) (tp, lf) = shortage_pass fs rest (tp, lf))
      \<and> (cons > dict_get tp item 0 \<and> cons \<noteq> 0 \<longrightarrow>
           (\<exists>tp' lf'.
               shortage_pass fs ((item, cons) # rest) (tp, lf) = shortage_pass fs rest (tp', lf')
             \<and> dict_keys tp' = dict_keys tp
             \<and> (\<forall>k. dict_get tp' k 0 =
                    discounted (round_float (dict_get tp item 0 / cons) 4) (dict_get tp k 0)
                      (rates_named k (throttled_outputs fs item)))
             \<and> (\<forall>k. map_of lf' k =
                   (if k \<in> fst ` set (throttled_outputs fs item)
                    then Some (dict_get (dict_set lf item []) k []
                               @ replicate (length (rates_named k (throttled_outputs fs item))) item)
                    else map_of (dict_set lf item []) k)))))"
proof (intro conjI impI)
  show "calculate_production_rates g =
     (case shortage_pass (all_facilities g) (snd (aggregate g)) (fst (aggregate g), []) of
        Inl e \<Rightarrow> Inl e
      | Inr (p, lf) \<Rightarrow> Inr (p, snd (aggregate g), lf))"
    by (rule calculate_production_rates_pass)
  show "fst ` set (throttled_outputs (all_facilities g) item) \<subseteq> set (dict_keys (fst (aggregate g)))"
    using output_keys_aggregated [of g] throttled_outputs_subset [of "all_facilities g" item]
    by blast
next
  assume "\<not> cons > dict_get tp item 0"
  then show "shortage_pass fs ((item, cons) # rest) (tp, lf) = shortage_pass fs rest (tp, lf)"
    by (rule shortage_pass_skip)
next
  assume keys: "fst ` set (throttled_outputs fs item) \<subseteq> set (dict_keys tp)"
    and short: "cons > dict_get tp item 0 \<and> cons \<noteq> 0"
  from short have s: "cons > dict_get tp item 0" and nz: "cons \<noteq> 0" by simp_all
  show "\<exists>tp' lf'.
               shortage_pass fs ((item, cons) # rest) (tp, lf) = shortage_pass fs rest (tp', lf')
             \<and> dict_keys tp' = dict_keys tp
             \<and> (\<forall>k. dict_get tp' k 0 =
                    discounted (round_float (dict_get tp item 0 / cons) 4) (dict_get tp k 0)
                      (rates_named k (throttled_outputs fs item)))
             \<and> (\<forall>k. map_of lf' k =
                   (if k \<in> fst ` set (throttled_outputs fs item)
                    then Some (dict_get (dict_set lf item []) k []
                               @ replicate (length (rates_named k (throttled_outputs fs item))) item)
                    else map_of (dict_set lf item []) k))"
    by (rule shortage_pass_short [OF keys s nz])
qed

text \<open>
  The chain again: B visited at production 10 is skipped; B visited after the discount
  for A, at production 0, cuts C to 0 and is recorded as the limiting factor of C.
\<close>

theorem shortage_pass_visit_witness:
  "fst ` set (throttled_outputs (all_facilities chain_graph) ''B'') \<subseteq> set (dict_keys [(''B'', 10), (''C'', 10 :: rat)])
   \<and> \<not> (10 :: rat) > dict_get [(''B'', 10), (''C'', 10)] ''B'' 0
   \<and> shortage_pass (all_facilities chain_graph) [(''B'', 10)] ([(''B'', 10), (''C'', 10)], [])
       = shortage_pass (all_facilities chain_graph) [] ([(''B'', 10), (''C'', 10)], [])
   \<and> (10 :: rat) > dict_get [(''B'', 0), (''C'', 10)] ''B'' 0 \<and> (10 :: rat) \<noteq> 0
   \<and> (\<exists>tp' lf'.
         shortage_pass (all_facilities chain_graph) [(''B'', 10)]
             ([(''B'', 0), (''C'', 10)], [(''A'', []), (''B'', [''A''])])
           = shortage_pass (all_facilities chain_graph) [] (tp', lf')
       \<and> dict_keys tp' = [''B'', ''C'']
       \<and> dict_get tp' ''B'' 0 = 0
       \<and> dict_get tp' ''C'' 0 = 0
       \<and> map_of lf' ''A'' = Some []
       \<and> map_of lf' ''B'' = Some []
       \<and> map_of lf' ''C'' = Some [''B''])"
proof -
  let ?fs = "all_facilities chain_graph"
  have outs: "throttled_outputs ?fs ''B'' = [(''C'', 10)]" by code_simp
  have k1: "fst ` set (throttled_outputs ?fs ''B'') \<subseteq> set (dict_keys [(''B'', 10), (''C'', 10 :: rat)])"
    unfolding outs by (simp add: dict_keys_def)
  have k2: "fst ` set (throttled_outputs ?fs ''B'') \<subseteq> set (dict_keys [(''B'', 0), (''C'', 10 :: rat)])"
    unfolding outs by (simp add: dict_keys_def)
  have ns: "\<not> (10 :: rat) > dict_get [(''B'', 10), (''C'', 10)] ''B'' 0" by (simp add: dict_get_def)
  have sh: "(10 :: rat) > dict_get [(''B'', 0), (''C'', 10)] ''B'' 0 \<and> (10 :: rat) \<noteq> 0"
    by (simp add: dict_get_def)
  have ratio: "round_float (dict_get [(''B'', 0), (''C'', 10)] ''B'' 0 / 10) 4 = 0" by code_simp
  have disc: "discounted 0 10 [10] = 0" by code_simp
  from shortage_pass_visit [of chain_graph "''B''" ?fs "[(''B'', 10), (''C'', 10)]" 10 "[]" "[]"] k1 ns
  have skip: "shortage_pass ?fs [(''B'', 10)] ([(''B'', 10), (''C'', 10)], [])
       = shortage_pass ?fs [] ([(''B'', 10), (''C'', 10)], [])"
    by blast
  from shortage_pass_visit [of chain_graph "''B''" ?fs "[(''B'', 0), (''C'', 10)]" 10 "[]"
      "[(''A'', []), (''B'', [''A''])]"] k2 sh
  obtain tp' lf' where
    step: "shortage_pass ?fs [(''B'', 10)] ([(''B'', 0), (''C'', 10)], [(''A'', []), (''B'', [''A''])])
           = shortage_pass ?fs [] (tp', lf')"
    and keys: "dict_keys tp' = dict_keys [(''B'', 0), (''C'', 10 :: rat)]"
    and p: "\<forall>k. dict_get tp' k 0 =
                    discounted (round_float (dict_get [(''B'', 0), (''C'', 10)] ''B'' 0 / 10) 4)
                      (dict_get [(''B'', 0), (''C'', 10)] k 0)
                      (rates_named k (throttled_outputs ?fs ''B''))"
    and f: "\<forall>k. map_of lf' k =
                   (if k \<in> fst ` set (throttled_outputs ?fs ''B'')
                    then Some (dict_get (dict_set [(''A'', []), (''B'', [''A''])] ''B'' []) k []
                               @ replicate (length (rates_named k (throttled_outputs ?fs ''B''))) ''B'')
                    else map_of (dict_set [(''A'', []), (''B'', [''A''])] ''B'' []) k)"
    by blast
  have 1: "dict_keys tp' = [''B'', ''C'']" using keys by (simp add: dict_keys_def)
  have 2: "dict_get tp' ''B'' 0 = 0"
    using p [rule_format, of "''B''"] unfolding outs ratio
    by (simp add: rates_named_def discounted_def dict_get_def)
  have 3: "dict_get tp' ''C'' 0 = 0"
    using p [rule_format, of "''C''"] unfolding outs ratio
    by (simp add: rates_named_def dict_get_def disc)
  have 4: "map_of lf' ''A'' = Some []"
    using f [rule_format, of "''A''"] unfolding outs by simp
  have 5: "map_of lf' ''B'' = Some []"
    using f [rule_format, of "''B''"] unfolding outs by simp
  have 6: "map_of lf' ''C'' = Some [''B'']"
    using f [rule_format, of "''C''"] unfolding outs by (simp add: rates_named_def dict_get_def)
  from k1 ns skip sh step 1 2 3 4 5 6 show ?thesis by (intro conjI exI) simp_all
qed

section \<open>Exceptions of the global query\<close>

text \<open>
  The index \<open>total_production[output_item]\<close> never raises: every adjusted output was
  added to the production totals by the aggregation passes. The only exception of
  \<open>calculate_production_rates\<close> is the division by a zero consumption.
\<close>

lemma shortage_pass_errors:
  assumes "fst ` set (output_entries fs) \<subseteq> set (dict_keys tp)"
      and "shortage_pass fs cs (tp, lf) = Inl e"
  shows "e = ZeroDivisionError"
  using assms
proof (induction cs arbitrary: tp lf)
  case Nil
  then show ?case by simp
next
  case (Cons c cs)
  obtain item cons where c: "c = (item, cons)" by (cases c)
  show ?case
  proof (cases "cons > dict_get tp item 0")
    case False
    with Cons.prems(2) have "shortage_pass fs cs (tp, lf) = Inl e" by (simp add: c)
    from Cons.IH [OF Cons.prems(1) this] show ?thesis .
  next
    case True
    show ?thesis
    proof (cases "cons = 0")
      case True
      with \<open>cons > dict_get tp item 0\<close> Cons.prems(2) show ?thesis by (simp add: c)
    next
      case False
      have keys: "fst ` set (throttled_outputs fs item) \<subseteq> set (dict_keys tp)"
        using Cons.prems(1) throttled_outputs_subset [of fs item] by blast
      from shortage_pass_short [OF keys True False, of cs lf]
      obtain tp1 lf1 where
        step: "shortage_pass fs ((item, cons) # cs) (tp, lf) = shortage_pass fs cs (tp1, lf1)"
        and k1: "dict_keys tp1 = dict_keys tp"
        by (elim exE conjE)
      from Cons.prems(2) step have run: "shortage_pass fs cs (tp1, lf1) = Inl e" by (simp add: c)
      from Cons.prems(1) k1 have "fst ` set (output_entries fs) \<subseteq> set (dict_keys tp1)" by simp
      from Cons.IH [OF this run] show ?thesis .
    qed
  qed
qed

lemma calculate_production_rates_errors:
  assumes "calculate_production_rates g = Inl e"
  shows "e = ZeroDivisionError"
proof -
  from assms have "shortage_pass (all_facilities g) (snd (aggregate g)) (fst (aggregate g), []) = Inl e"
    by (auto simp: calculate_production_rates_pass split: sum.splits prod.splits)
  from shortage_pass_errors [OF output_keys_aggregated this] show ?thesis .
qed

section \<open>The loop of identify_bottlenecks\<close>

text \<open>
  Run on two rate dictionaries, the loop reports exactly the resources of either
  dictionary with a positive rounded deficit, each with that deficit.
\<close>

lemma bottleneck_fold:
  "map_of (fold (\<lambda>item bottlenecks.
             let prod_rate = dict_get production item 0;
                 cons_rate = dict_get consumption item 0;
                 deficit = round_float (cons_rate - prod_rate) 2
             in if deficit > 0 then dict_set bottlenecks item deficit else bottlenecks) ks acc) k
   = (if k \<in> set ks \<and> deficit production consumption k > 0
      then Some (deficit production consumption k) else map_of acc k)"
  by (induction ks arbitrary: acc) (auto simp: Let_def deficit_def map_of_dict_set)

lemma bottleneck_loop_reports:
  "map_of (bottleneck_loop production consumption) k
   = (if k \<in> set (dict_keys production) \<union> set (dict_keys consumption)
        \<and> deficit production consumption k > 0
      then Some (deficit production consumption k) else None)"
  unfolding bottleneck_loop_def bottleneck_fold by simp

end
